theory Spec2Isabelle
  imports Main "HOL-Library.Multiset"
begin

section \<open>Values, exceptions and the relational store\<close>

text \<open>
  The repository layer \<^verbatim>\<open>DatabaseStorage\<close> (src/server/storage/database.ts) is a set of
  asynchronous methods over three tables of a relational store. Every method is modelled
  as a function that takes the store and returns a result together with the store after
  the call. A rejected promise is the left injection of the result.
\<close>

type_synonym Date = int
  \<comment> \<open>a reading of \<^verbatim>\<open>new Date()\<close>, in milliseconds\<close>

datatype exn =
    Error string      \<comment> \<open>\<^verbatim>\<open>new Error(message)\<close>, also the driver's own Error objects\<close>
  | TypeError string  \<comment> \<open>raised by the JavaScript runtime itself\<close>
  | NonError string   \<comment> \<open>a thrown value that is not an instance of Error\<close>

fun instanceof_Error :: "exn \<Rightarrow> bool" where
  "instanceof_Error (Error m) = True"
| "instanceof_Error (TypeError m) = True"
| "instanceof_Error (NonError v) = False"

datatype scalar = Undefined | Null | Str string
  \<comment> \<open>the values a text column or a payload property holds; \<^verbatim>\<open>!==\<close> on them is \<open>\<noteq>\<close>\<close>

fun String :: "scalar \<Rightarrow> string" where
  "String Undefined = ''undefined''"
| "String Null = ''null''"
| "String (Str s) = s"

text \<open>Decimal rendering of an integer id inside a template literal.\<close>

function show_nat :: "nat \<Rightarrow> string" where
  "show_nat n =
     (if n < 10 then [char_of (48 + n)]
      else show_nat (n div 10) @ [char_of (48 + n mod 10)])"
  by pat_completeness auto
termination
  by (relation "measure (\<lambda>n. n)") auto

definition show_int :: "int \<Rightarrow> string" where
  "show_int i = (if i < 0 then CHR ''-'' # show_nat (nat (- i)) else show_nat (nat i))"

text \<open>Array destructuring \<^verbatim>\<open>const [x] = rows\<close>: the first element, or undefined.\<close>

fun first :: "'a list \<Rightarrow> 'a option" where
  "first [] = None"
| "first (x # xs) = Some x"

subsection \<open>Rows\<close>

record InsertUser =
  username :: string
  email :: string
  password :: string
  isAdmin :: "bool option"
  isApproved :: "bool option"
  \<comment> \<open>the last two are properties a registration payload may carry at run time;
      the spread \<^verbatim>\<open>...insertUser\<close> copies whatever the object holds\<close>

record User =
  user_id :: int
  username :: string
  email :: string
  password :: string
  isAdmin :: bool
  isApproved :: bool
  approvalFeedback :: "string option"
  registrationDate :: Date

record change =
  field :: string
  "from" :: scalar
  to :: scalar

record 'c tracked =
  sadNumber :: scalar
  sadDate :: scalar
  declarantCompany :: scalar
  declarantName :: scalar
  documentHolder :: scalar
  documentHolderPhone :: scalar
  reason :: scalar
  corrections :: 'c

record 'p Request =
  req_id :: int
  userId :: int
  payload :: 'p
  status :: string
  adminFeedback :: "string option"
  isResubmission :: bool
  originalRequestId :: "int option"
  changes :: "change list option"
  hiddenBy :: "int list option"
  isArchived :: bool
  createdAt :: Date
  updatedAt :: Date
  receivedAt :: "Date option"
  completedAt :: "Date option"

type_synonym 'c CaseRequest = "'c tracked Request"
type_synonym 'p ExtensionRequest = "'p Request"

subsection \<open>The store\<close>

text \<open>
  Modelled from the spec: the schema module (shared/schema) is not among the sources.
  The columns are those of section 3 of the specification; a column that an insert does
  not mention takes its default (no feedback, no timestamps, not archived, an empty
  \<open>hiddenBy\<close>), and the primary key is drawn from a sequence. Each table is the list
  of its rows in insertion order.

  \<open>faults\<close> is the behaviour of the backing store as the calls see it: every call to
  the store consumes the head of the list and throws it when it is \<open>Some e\<close>; a call
  on the empty list succeeds.

  \<open>jsonb\<close> is what the jsonb column \<open>corrections\<close> holds for a value written to it:
  the store keeps its own normal form of the value (null for a property that was left
  out, object keys in the store's order), not the value as passed.
\<close>

record ('c, 'p) database =
  users :: "User list"
  caseRequests :: "'c CaseRequest list"
  extensionRequests :: "'p ExtensionRequest list"
  users_seq :: int
  caseRequests_seq :: int
  extensionRequests_seq :: int
  faults :: "exn option list"
  jsonb :: "'c \<Rightarrow> 'c"

type_synonym ('c, 'p, 'a) promise = "(exn + 'a) \<times> ('c, 'p) database"

definition await :: "('c, 'p) database \<Rightarrow> exn option \<times> ('c, 'p) database" where
  "await d = (case faults d of [] \<Rightarrow> (None, d) | f # fs \<Rightarrow> (f, d\<lparr>faults := fs\<rparr>))"

text \<open>
  Queries are built with the drizzle-orm select builder, which keeps one configuration
  object. \<^verbatim>\<open>.where(c)\<close> assigns the condition (\<^verbatim>\<open>this.config.where = c\<close>): a second
  call replaces the first, it does not conjoin with it (conditions are combined with
  \<^verbatim>\<open>and(...)\<close>). \<^verbatim>\<open>.orderBy(desc(col))\<close> and \<^verbatim>\<open>.limit(n)\<close> assign likewise. A
  condition is an SQL predicate; a row is selected when it evaluates to true. Rows with
  equal sort keys keep their table order here; SQL leaves their order open.
\<close>

record 'r select_config =
  cfg_where :: "('r \<Rightarrow> bool) option"
  cfg_orderBy_desc :: "('r \<Rightarrow> int) option"
  cfg_limit :: "nat option"

definition select_from :: "'r select_config" where
  "select_from = \<lparr>cfg_where = None, cfg_orderBy_desc = None, cfg_limit = None\<rparr>"

definition q_where :: "('r \<Rightarrow> bool) \<Rightarrow> 'r select_config \<Rightarrow> 'r select_config" where
  "q_where c q = q\<lparr>cfg_where := Some c\<rparr>"

definition q_orderBy_desc :: "('r \<Rightarrow> int) \<Rightarrow> 'r select_config \<Rightarrow> 'r select_config" where
  "q_orderBy_desc k q = q\<lparr>cfg_orderBy_desc := Some k\<rparr>"

definition q_limit :: "nat \<Rightarrow> 'r select_config \<Rightarrow> 'r select_config" where
  "q_limit n q = q\<lparr>cfg_limit := Some n\<rparr>"

definition run_select :: "'r list \<Rightarrow> 'r select_config \<Rightarrow> 'r list" where
  "run_select rows q =
     (let kept = (case cfg_where q of None \<Rightarrow> rows | Some c \<Rightarrow> filter c rows);
          ordered = (case cfg_orderBy_desc q of None \<Rightarrow> kept
                     | Some k \<Rightarrow> sort_key (\<lambda>r. - k r) kept)
      in case cfg_limit q of None \<Rightarrow> ordered | Some n \<Rightarrow> take n ordered)"

definition db_select ::
  "('c, 'p) database \<Rightarrow> 'r list \<Rightarrow> 'r select_config \<Rightarrow> ('c, 'p, 'r list) promise" where
  "db_select d rows q =
     (case await d of
        (Some e, d') \<Rightarrow> (Inl e, d')
      | (None, d') \<Rightarrow> (Inr (run_select rows q), d'))"

text \<open>\<^verbatim>\<open>update(t).set(f).where(c).returning()\<close> and \<^verbatim>\<open>delete(t).where(c)\<close> on a list of rows.\<close>

definition update_rows :: "('r \<Rightarrow> bool) \<Rightarrow> ('r \<Rightarrow> 'r) \<Rightarrow> 'r list \<Rightarrow> 'r list" where
  "update_rows c f rows = map (\<lambda>r. if c r then f r else r) rows"

definition updated_rows :: "('r \<Rightarrow> bool) \<Rightarrow> ('r \<Rightarrow> 'r) \<Rightarrow> 'r list \<Rightarrow> 'r list" where
  "updated_rows c f rows = map f (filter c rows)"

definition delete_rows :: "('r \<Rightarrow> bool) \<Rightarrow> 'r list \<Rightarrow> 'r list" where
  "delete_rows c rows = filter (\<lambda>r. \<not> c r) rows"

section \<open>User repository\<close>

definition getUser :: "('c, 'p) database \<Rightarrow> int \<Rightarrow> ('c, 'p, User option) promise" where
  "getUser d i =
     (case db_select d (users d) (q_where (\<lambda>u. user_id u = i) select_from) of
        (Inl e, d') \<Rightarrow> (Inr None, d')
      | (Inr rows, d') \<Rightarrow> (Inr (first rows), d'))"

text \<open>
  The row an insert into \<open>users\<close> stores for a values object: the key comes from the
  sequence, and a column the object leaves out takes its default.
\<close>

definition users_row :: "int \<Rightarrow> InsertUser \<Rightarrow> Date \<Rightarrow> User" where
  "users_row k v registered =
     \<lparr>user_id = k,
      username = InsertUser.username v,
      email = InsertUser.email v,
      password = InsertUser.password v,
      isAdmin = (case InsertUser.isAdmin v of None \<Rightarrow> False | Some b \<Rightarrow> b),
      isApproved = (case InsertUser.isApproved v of None \<Rightarrow> False | Some b \<Rightarrow> b),
      approvalFeedback = None,
      registrationDate = registered\<rparr>"

definition createUser ::
  "('c, 'p) database \<Rightarrow> InsertUser \<Rightarrow> Date \<Rightarrow> ('c, 'p, User option) promise" where
  "createUser d insertUser now =
     (case db_select d (users d) select_from of
        (Inl e, d1) \<Rightarrow> (Inl e, d1)
      | (Inr existingUsers, d1) \<Rightarrow>
          (let isFirstUser = (length existingUsers = 0);
               values = insertUser\<lparr>InsertUser.isAdmin := Some isFirstUser,
                                    InsertUser.isApproved := Some isFirstUser\<rparr>
           in case await d1 of
                (Some e, d2) \<Rightarrow> (Inl e, d2)
              | (None, d2) \<Rightarrow>
                  (let user = users_row (users_seq d2) values now
                   in (Inr (first [user]),
                       d2\<lparr>users := users d2 @ [user], users_seq := users_seq d2 + 1\<rparr>))))"

section \<open>Request repository: case requests\<close>

definition getCaseRequest ::
  "('c, 'p) database \<Rightarrow> int \<Rightarrow> ('c, 'p, 'c CaseRequest option) promise" where
  "getCaseRequest d i =
     (case db_select d (caseRequests d) (q_where (\<lambda>r. req_id r = i) select_from) of
        (Inl e, d') \<Rightarrow> (Inr None, d')
      | (Inr rows, d') \<Rightarrow> (Inr (first rows), d'))"

subsection \<open>Creation and the change list of a resubmission\<close>

definition fieldsToCompare :: "string list" where
  "fieldsToCompare =
     [''sadNumber'', ''sadDate'', ''declarantCompany'', ''declarantName'',
      ''documentHolder'', ''documentHolderPhone'', ''reason'']"

text \<open>Property access by name, \<^verbatim>\<open>original[field]\<close>; a name the object lacks reads undefined.\<close>

definition get_field :: "string \<Rightarrow> ('c, 'z) tracked_scheme \<Rightarrow> scalar" where
  "get_field f r =
     (if f = ''sadNumber'' then sadNumber r
      else if f = ''sadDate'' then sadDate r
      else if f = ''declarantCompany'' then declarantCompany r
      else if f = ''declarantName'' then declarantName r
      else if f = ''documentHolder'' then documentHolder r
      else if f = ''documentHolderPhone'' then documentHolderPhone r
      else if f = ''reason'' then reason r
      else Undefined)"

text \<open>
  Lines 144 to 164 of createCaseRequest: the entries for the scalar fields that differ,
  then one for the corrections when their serialisations differ. \<open>JSON_stringify\<close> is
  the platform's serialiser, a parameter here; it returns a string or undefined.
\<close>

definition compare_with_original ::
  "('c \<Rightarrow> scalar) \<Rightarrow> ('c, 'y) tracked_scheme \<Rightarrow> ('c, 'z) tracked_scheme \<Rightarrow> change list" where
  "compare_with_original JSON_stringify original request =
     (let changed =
            map (\<lambda>f. \<lparr>field = f,
                      from = Str (String (get_field f original)),
                      to = Str (String (get_field f request))\<rparr>)
              (filter (\<lambda>f. get_field f original \<noteq> get_field f request) fieldsToCompare)
      in if JSON_stringify (corrections original) \<noteq> JSON_stringify (corrections request)
         then changed @ [\<lparr>field = ''corrections'',
                           from = JSON_stringify (corrections original),
                           to = JSON_stringify (corrections request)\<rparr>]
         else changed)"

text \<open>The truth value of \<^verbatim>\<open>request.originalRequestId\<close>, a number or undefined.\<close>

fun truthy :: "int option \<Rightarrow> bool" where
  "truthy None = False"
| "truthy (Some n) = (n \<noteq> 0)"

text \<open>
  Lines 132 to 166 of createCaseRequest: the change list, empty unless the original
  request id is truthy and the original is found.
\<close>

definition original_changes ::
  "('c, 'p) database \<Rightarrow> ('c \<Rightarrow> scalar) \<Rightarrow> 'c tracked \<Rightarrow> int option
     \<Rightarrow> ('c, 'p, change list) promise" where
  "original_changes d JSON_stringify request origId =
     (case origId of
        None \<Rightarrow> (Inr [], d)
      | Some oid \<Rightarrow>
          if oid = 0 then (Inr [], d)
          else (case db_select d (caseRequests d)
                       (q_limit 1 (q_where (\<lambda>r. req_id r = oid) select_from)) of
                  (Inl e, d1) \<Rightarrow> (Inl e, d1)
                | (Inr originalRequest, d1) \<Rightarrow>
                    (case originalRequest of
                       [] \<Rightarrow> (Inr [], d1)
                     | original # rest \<Rightarrow>
                         (Inr (compare_with_original JSON_stringify
                                 (payload original) request), d1))))"

text \<open>
  What the insert stores for the tracked properties of the values object: a scalar
  property that is undefined is left out of the INSERT and its column is null; the
  corrections are held as the store's jsonb column holds them.
\<close>

fun column_value :: "scalar \<Rightarrow> scalar" where
  "column_value Undefined = Null"
| "column_value Null = Null"
| "column_value (Str s) = Str s"

definition stored_fields :: "('c \<Rightarrow> 'c) \<Rightarrow> 'c tracked \<Rightarrow> 'c tracked" where
  "stored_fields column request =
     \<lparr>sadNumber = column_value (sadNumber request),
      sadDate = column_value (sadDate request),
      declarantCompany = column_value (declarantCompany request),
      declarantName = column_value (declarantName request),
      documentHolder = column_value (documentHolder request),
      documentHolderPhone = column_value (documentHolderPhone request),
      reason = column_value (reason request),
      corrections = column (corrections request)\<rparr>"

definition createCaseRequest ::
  "('c, 'p) database \<Rightarrow> ('c \<Rightarrow> scalar) \<Rightarrow> 'c tracked \<Rightarrow> int \<Rightarrow> int option \<Rightarrow> Date
     \<Rightarrow> ('c, 'p, 'c CaseRequest option) promise" where
  "createCaseRequest d JSON_stringify request uid origId now =
     (case original_changes d JSON_stringify request origId of
        (Inl e, d1) \<Rightarrow> (Inl e, d1)
      | (Inr changed, d1) \<Rightarrow>
          (case await d1 of
             (Some e, d2) \<Rightarrow> (Inl e, d2)
           | (None, d2) \<Rightarrow>
               (let caseRequest =
                      \<lparr>req_id = caseRequests_seq d2,
                       userId = uid,
                       payload = stored_fields (jsonb d2) request,
                       status = (if truthy origId then ''resubmitted'' else ''submitted''),
                       adminFeedback = None,
                       isResubmission = truthy origId,
                       originalRequestId = origId,
                       changes = (if length changed > 0 then Some changed else None),
                       hiddenBy = Some [],
                       isArchived = False,
                       createdAt = now,
                       updatedAt = now,
                       receivedAt = None,
                       completedAt = None\<rparr>
                in (Inr (first [caseRequest]),
                    d2\<lparr>caseRequests := caseRequests d2 @ [caseRequest],
                       caseRequests_seq := caseRequests_seq d2 + 1\<rparr>))))"

subsection \<open>Listing\<close>

text \<open>
  The condition \<^verbatim>\<open>NOT hiddenBy::jsonb @> '[userId]'::jsonb\<close>: on a null \<open>hiddenBy\<close> it is
  null, which selects nothing.
\<close>

definition sql_not_contains :: "int list option \<Rightarrow> int \<Rightarrow> bool" where
  "sql_not_contains hb uid = (case hb of None \<Rightarrow> False | Some xs \<Rightarrow> uid \<notin> set xs)"

definition getCaseRequestsByUser ::
  "('c, 'p) database \<Rightarrow> int \<Rightarrow> ('c, 'p, 'c CaseRequest list) promise" where
  "getCaseRequestsByUser d uid =
     (case db_select d (caseRequests d)
             (q_orderBy_desc createdAt
               (q_where (\<lambda>r. isArchived r = False)
                 (q_where (\<lambda>r. sql_not_contains (hiddenBy r) uid)
                   (q_where (\<lambda>r. userId r = uid) select_from)))) of
        (Inl e, d') \<Rightarrow> (Inr [], d')
      | (Inr requests, d') \<Rightarrow> (Inr requests, d'))"

definition getAllCaseRequests ::
  "('c, 'p) database \<Rightarrow> ('c, 'p, 'c CaseRequest list) promise" where
  "getAllCaseRequests d =
     db_select d (caseRequests d)
       (q_orderBy_desc createdAt (q_where (\<lambda>r. isArchived r = False) select_from))"

subsection \<open>Status updates and the other mutations\<close>

text \<open>
  \<open>validTransitions\<close> is an object literal, and \<^verbatim>\<open>validTransitions[currentStatus]\<close> is a
  property read: an own key gives its array, a key of \<^verbatim>\<open>Object.prototype\<close> gives the
  inherited member, any other key gives undefined. \<^verbatim>\<open>?.includes(status)\<close> is undefined on
  undefined, the array's membership test on an array, and a TypeError on an inherited
  member, which is neither nullish nor has an \<open>includes\<close> method.
\<close>

datatype property = Absent | Array "string list" | Inherited

definition Object_prototype :: "string list" where
  "Object_prototype =
     [''constructor'', ''__defineGetter__'', ''__defineSetter__'', ''hasOwnProperty'',
      ''__lookupGetter__'', ''__lookupSetter__'', ''isPrototypeOf'',
      ''propertyIsEnumerable'', ''toString'', ''valueOf'', ''__proto__'',
      ''toLocaleString'']"

definition object_get :: "(string \<times> string list) list \<Rightarrow> string \<Rightarrow> property" where
  "object_get own k =
     (case map_of own k of
        Some v \<Rightarrow> Array v
      | None \<Rightarrow> if k \<in> set Object_prototype then Inherited else Absent)"

text \<open>The value of \<^verbatim>\<open>!x?.includes(s)\<close>.\<close>

fun not_includes :: "property \<Rightarrow> string \<Rightarrow> exn + bool" where
  "not_includes Absent s = Inr True"
| "not_includes (Array xs) s = Inr (s \<notin> set xs)"
| "not_includes Inherited s =
     Inl (TypeError ''validTransitions[currentStatus]?.includes is not a function'')"

text \<open>
  The object passed to \<^verbatim>\<open>.set\<close> by both update methods. A property whose value is
  undefined is left out of the UPDATE, so its column keeps its value: the feedback when
  none is passed, \<open>completedAt\<close> unless the new status is complete, \<open>receivedAt\<close>
  unless it is pending. The three timestamps are three readings of the clock.
\<close>

definition set_status ::
  "string \<Rightarrow> string option \<Rightarrow> Date \<Rightarrow> Date \<Rightarrow> Date \<Rightarrow> 'p Request \<Rightarrow> 'p Request" where
  "set_status newStatus feedback t_updated t_completed t_received r =
     r\<lparr>status := newStatus,
       adminFeedback := (case feedback of None \<Rightarrow> adminFeedback r | Some t \<Rightarrow> Some t),
       updatedAt := t_updated,
       completedAt := (if newStatus = ''complete'' then Some t_completed else completedAt r),
       receivedAt := (if newStatus = ''pending'' then Some t_received else receivedAt r)\<rparr>"

definition validTransitions_case :: "(string \<times> string list) list" where
  "validTransitions_case =
     [(''submitted'', [''pending'', ''rejected'']),
      (''pending'', [''complete'', ''rejected'']),
      (''rejected'', []),
      (''complete'', []),
      (''resubmitted'', [''pending'', ''rejected''])]"

definition updateCaseRequest ::
  "('c, 'p) database \<Rightarrow> int \<Rightarrow> string \<Rightarrow> string option \<Rightarrow> Date \<Rightarrow> Date \<Rightarrow> Date
     \<Rightarrow> ('c, 'p, 'c CaseRequest) promise" where
  "updateCaseRequest d i newStatus feedback t_updated t_completed t_received =
     (case
        (case db_select d (caseRequests d)
                (q_limit 1 (q_where (\<lambda>r. req_id r = i) select_from)) of
           (Inl e, d1) \<Rightarrow> (Inl e, d1)
         | (Inr existingRequest, d1) \<Rightarrow>
             (case existingRequest of
                [] \<Rightarrow> (Inl (Error (''Request with ID '' @ show_int i @ '' not found'')), d1)
              | existing # rest \<Rightarrow>
                  (let currentStatus = status existing in
                   case not_includes (object_get validTransitions_case currentStatus)
                          newStatus of
                     Inl e \<Rightarrow> (Inl e, d1)
                   | Inr True \<Rightarrow>
                       (Inl (Error (''Invalid status transition from '' @ currentStatus
                                      @ '' to '' @ newStatus)), d1)
                   | Inr False \<Rightarrow>
                       (case await d1 of
                          (Some e, d2) \<Rightarrow> (Inl e, d2)
                        | (None, d2) \<Rightarrow>
                            (let c = (\<lambda>r. req_id r = i);
                                 f = set_status newStatus feedback
                                       t_updated t_completed t_received;
                                 d3 = d2\<lparr>caseRequests := update_rows c f (caseRequests d2)\<rparr>
                             in case first (updated_rows c f (caseRequests d2)) of
                                  None \<Rightarrow> (Inl (Error ''Failed to update case request''), d3)
                                | Some request \<Rightarrow> (Inr request, d3)))))) of
        (Inl error, d') \<Rightarrow>
          (if instanceof_Error error then (Inl error, d')
           else (Inl (Error ''Failed to update case request''), d'))
      | (Inr request, d') \<Rightarrow> (Inr request, d'))"

definition hideUserCaseRequest ::
  "('c, 'p) database \<Rightarrow> int \<Rightarrow> int \<Rightarrow> ('c, 'p, unit) promise" where
  "hideUserCaseRequest d i uid =
     (case db_select d (caseRequests d) (q_where (\<lambda>r. req_id r = i) select_from) of
        (Inl e, d1) \<Rightarrow> (Inl e, d1)
      | (Inr rows, d1) \<Rightarrow>
          (case first rows of
             None \<Rightarrow> (Inl (Error ''Request not found''), d1)
           | Some request \<Rightarrow>
               (let hidden = (case hiddenBy request of None \<Rightarrow> [] | Some xs \<Rightarrow> xs) @ [uid]
                in case await d1 of
                     (Some e, d2) \<Rightarrow> (Inl e, d2)
                   | (None, d2) \<Rightarrow>
                       (Inr (),
                        d2\<lparr>caseRequests :=
                             update_rows (\<lambda>r. req_id r = i) (\<lambda>r. r\<lparr>hiddenBy := Some hidden\<rparr>)
                               (caseRequests d2)\<rparr>))))"

definition archiveCaseRequest :: "('c, 'p) database \<Rightarrow> int \<Rightarrow> ('c, 'p, unit) promise" where
  "archiveCaseRequest d i =
     (case await d of
        (Some e, d1) \<Rightarrow> (Inl e, d1)
      | (None, d1) \<Rightarrow>
          (Inr (),
           d1\<lparr>caseRequests :=
                update_rows (\<lambda>r. req_id r = i) (\<lambda>r. r\<lparr>isArchived := True\<rparr>) (caseRequests d1)\<rparr>))"

definition deleteCaseRequest :: "('c, 'p) database \<Rightarrow> int \<Rightarrow> ('c, 'p, unit) promise" where
  "deleteCaseRequest d i =
     (case await d of
        (Some e, d1) \<Rightarrow> (Inl e, d1)
      | (None, d1) \<Rightarrow>
          (Inr (), d1\<lparr>caseRequests := delete_rows (\<lambda>r. req_id r = i) (caseRequests d1)\<rparr>))"

section \<open>Request repository: extension requests\<close>

definition getExtensionRequest ::
  "('c, 'p) database \<Rightarrow> int \<Rightarrow> ('c, 'p, 'p ExtensionRequest option) promise" where
  "getExtensionRequest d i =
     (case db_select d (extensionRequests d) (q_where (\<lambda>r. req_id r = i) select_from) of
        (Inl e, d') \<Rightarrow> (Inr None, d')
      | (Inr rows, d') \<Rightarrow> (Inr (first rows), d'))"

text \<open>
  createExtensionRequest stores the object it is given, status included, with the two
  timestamps; it reads no original and computes no change list.
\<close>

definition createExtensionRequest ::
  "('c, 'p) database \<Rightarrow> 'p \<Rightarrow> int \<Rightarrow> string \<Rightarrow> Date
     \<Rightarrow> ('c, 'p, 'p ExtensionRequest option) promise" where
  "createExtensionRequest d request uid givenStatus now =
     (case await d of
        (Some e, d1) \<Rightarrow> (Inl e, d1)
      | (None, d1) \<Rightarrow>
          (let extensionRequest =
                 \<lparr>req_id = extensionRequests_seq d1,
                  userId = uid,
                  payload = request,
                  status = givenStatus,
                  adminFeedback = None,
                  isResubmission = False,
                  originalRequestId = None,
                  changes = None,
                  hiddenBy = Some [],
                  isArchived = False,
                  createdAt = now,
                  updatedAt = now,
                  receivedAt = None,
                  completedAt = None\<rparr>
           in (Inr (first [extensionRequest]),
               d1\<lparr>extensionRequests := extensionRequests d1 @ [extensionRequest],
                  extensionRequests_seq := extensionRequests_seq d1 + 1\<rparr>)))"

definition getExtensionRequestsByUser ::
  "('c, 'p) database \<Rightarrow> int \<Rightarrow> ('c, 'p, 'p ExtensionRequest list) promise" where
  "getExtensionRequestsByUser d uid =
     db_select d (extensionRequests d)
       (q_orderBy_desc createdAt
         (q_where (\<lambda>r. isArchived r = False)
           (q_where (\<lambda>r. sql_not_contains (hiddenBy r) uid)
             (q_where (\<lambda>r. userId r = uid) select_from))))"

definition getAllExtensionRequests ::
  "('c, 'p) database \<Rightarrow> ('c, 'p, 'p ExtensionRequest list) promise" where
  "getAllExtensionRequests d =
     db_select d (extensionRequests d)
       (q_orderBy_desc createdAt (q_where (\<lambda>r. isArchived r = False) select_from))"

definition validTransitions_extension :: "(string \<times> string list) list" where
  "validTransitions_extension =
     [(''submitted'', [''pending'', ''rejected'']),
      (''pending'', [''complete'', ''rejected'']),
      (''rejected'', []),
      (''complete'', [])]"

definition updateExtensionRequest ::
  "('c, 'p) database \<Rightarrow> int \<Rightarrow> string \<Rightarrow> string option \<Rightarrow> Date \<Rightarrow> Date \<Rightarrow> Date
     \<Rightarrow> ('c, 'p, 'p ExtensionRequest) promise" where
  "updateExtensionRequest d i newStatus feedback t_updated t_completed t_received =
     (case
        (case db_select d (extensionRequests d)
                (q_limit 1 (q_where (\<lambda>r. req_id r = i) select_from)) of
           (Inl e, d1) \<Rightarrow> (Inl e, d1)
         | (Inr existingRequest, d1) \<Rightarrow>
             (case existingRequest of
                [] \<Rightarrow> (Inl (Error (''Request with ID '' @ show_int i @ '' not found'')), d1)
              | existing # rest \<Rightarrow>
                  (let currentStatus = status existing in
                   case not_includes (object_get validTransitions_extension currentStatus)
                          newStatus of
                     Inl e \<Rightarrow> (Inl e, d1)
                   | Inr True \<Rightarrow>
                       (Inl (Error (''Invalid status transition from '' @ currentStatus
                                      @ '' to '' @ newStatus)), d1)
                   | Inr False \<Rightarrow>
                       (case await d1 of
                          (Some e, d2) \<Rightarrow> (Inl e, d2)
                        | (None, d2) \<Rightarrow>
                            (let c = (\<lambda>r. req_id r = i);
                                 f = set_status newStatus feedback
                                       t_updated t_completed t_received;
                                 d3 = d2\<lparr>extensionRequests := update_rows c f (extensionRequests d2)\<rparr>
                             in case first (updated_rows c f (extensionRequests d2)) of
                                  None \<Rightarrow> (Inl (Error ''Failed to update extension request''), d3)
                                | Some request \<Rightarrow> (Inr request, d3)))))) of
        (Inl error, d') \<Rightarrow>
          (if instanceof_Error error then (Inl error, d')
           else (Inl (Error ''Failed to update extension request''), d'))
      | (Inr request, d') \<Rightarrow> (Inr request, d'))"

definition hideUserExtensionRequest ::
  "('c, 'p) database \<Rightarrow> int \<Rightarrow> int \<Rightarrow> ('c, 'p, unit) promise" where
  "hideUserExtensionRequest d i uid =
     (case db_select d (extensionRequests d) (q_where (\<lambda>r. req_id r = i) select_from) of
        (Inl e, d1) \<Rightarrow> (Inl e, d1)
      | (Inr rows, d1) \<Rightarrow>
          (case first rows of
             None \<Rightarrow> (Inl (Error ''Request not found''), d1)
           | Some request \<Rightarrow>
               (let hidden = (case hiddenBy request of None \<Rightarrow> [] | Some xs \<Rightarrow> xs) @ [uid]
                in case await d1 of
                     (Some e, d2) \<Rightarrow> (Inl e, d2)
                   | (None, d2) \<Rightarrow>
                       (Inr (),
                        d2\<lparr>extensionRequests :=
                             update_rows (\<lambda>r. req_id r = i) (\<lambda>r. r\<lparr>hiddenBy := Some hidden\<rparr>)
                               (extensionRequests d2)\<rparr>))))"

definition archiveExtensionRequest :: "('c, 'p) database \<Rightarrow> int \<Rightarrow> ('c, 'p, unit) promise" where
  "archiveExtensionRequest d i =
     (case await d of
        (Some e, d1) \<Rightarrow> (Inl e, d1)
      | (None, d1) \<Rightarrow>
          (Inr (),
           d1\<lparr>extensionRequests :=
                update_rows (\<lambda>r. req_id r = i) (\<lambda>r. r\<lparr>isArchived := True\<rparr>) (extensionRequests d1)\<rparr>))"

definition deleteExtensionRequest :: "('c, 'p) database \<Rightarrow> int \<Rightarrow> ('c, 'p, unit) promise" where
  "deleteExtensionRequest d i =
     (case await d of
        (Some e, d1) \<Rightarrow> (Inl e, d1)
      | (None, d1) \<Rightarrow>
          (Inr (), d1\<lparr>extensionRequests := delete_rows (\<lambda>r. req_id r = i) (extensionRequests d1)\<rparr>))"

section \<open>Storage backend initialisation\<close>








section \<open>Notions used in the statements\<close>

text \<open>
  Section 4.1 of the specification lists the allowed transitions of each entity kind.
  This definition follows the specification's table, not the code; the lemmas
  \<open>case_table_allows\<close> and \<open>extension_table_allows\<close> below relate it to the two
  \<open>validTransitions\<close> objects of the code.
\<close>

datatype kind = CaseKind | ExtensionKind

fun allowed_transitions :: "kind \<Rightarrow> (string \<times> string) list" where
  "allowed_transitions CaseKind =
     [(''submitted'', ''pending''), (''submitted'', ''rejected''),
      (''pending'', ''complete''), (''pending'', ''rejected''),
      (''resubmitted'', ''pending''), (''resubmitted'', ''rejected'')]"
| "allowed_transitions ExtensionKind =
     [(''submitted'', ''pending''), (''submitted'', ''rejected''),
      (''pending'', ''complete''), (''pending'', ''rejected'')]"

text \<open>
  The change list that createCaseRequest stores for a request, read off the table: what
  \<open>original_changes\<close> computes when the store answers.
\<close>

definition stored_changes ::
  "('c \<Rightarrow> scalar) \<Rightarrow> 'c CaseRequest list \<Rightarrow> 'c tracked \<Rightarrow> int option \<Rightarrow> change list" where
  "stored_changes JSON_stringify rows request origId =
     (case origId of
        None \<Rightarrow> []
      | Some oid \<Rightarrow>
          if oid = 0 then []
          else (case find (\<lambda>r. req_id r = oid) rows of
                  None \<Rightarrow> []
                | Some original \<Rightarrow> compare_with_original JSON_stringify (payload original) request))"

section \<open>Example stores\<close>

text \<open>
  In the examples the corrections of a case request are held as their serialised text, so
  the serialiser is \<open>Str\<close> and the column holds the text as written, and an extension
  request carries no payload.
\<close>

definition empty_db :: "(string, unit) database" where
  "empty_db = \<lparr>users = [], caseRequests = [], extensionRequests = [],
               users_seq = 1, caseRequests_seq = 1, extensionRequests_seq = 1, faults = [],
               jsonb = (\<lambda>c. c)\<rparr>"

definition alice :: InsertUser where
  "alice = \<lparr>InsertUser.username = ''alice'', email = ''alice@example.org'',
            password = ''pw'', isAdmin = None, isApproved = None\<rparr>"

definition mallory :: InsertUser where
  "mallory = \<lparr>InsertUser.username = ''mallory'', email = ''m@example.org'',
              password = ''pw'', isAdmin = Some True, isApproved = Some True\<rparr>"

definition request_A :: "string tracked" where
  "request_A =
     \<lparr>sadNumber = Str ''S-100'', sadDate = Str ''2024-01-31'',
      declarantCompany = Str ''Acme'', declarantName = Str ''Ann'',
      documentHolder = Str ''Bob'', documentHolderPhone = Str ''555-0100'',
      reason = Str ''x'', corrections = ''[]''\<rparr>"

definition one_case_db :: "(string, unit) database" where
  "one_case_db = snd (createCaseRequest empty_db Str request_A 1 None 1000)"

definition one_extension_db :: "(string, unit) database" where
  "one_extension_db = snd (createExtensionRequest one_case_db () 1 ''submitted'' 1500)"

definition pending_db :: "(string, unit) database" where
  "pending_db = snd (updateCaseRequest one_extension_db 1 ''pending'' None 2000 2001 2002)"

definition inherited_status_db :: "(string, unit) database" where
  "inherited_status_db = snd (createExtensionRequest empty_db () 7 ''constructor'' 1000)"

definition two_owner_db :: "(string, unit) database" where
  "two_owner_db = snd (createCaseRequest one_case_db Str request_A 2 None 2000)"

definition hidden_db :: "(string, unit) database" where
  "hidden_db = snd (hideUserCaseRequest two_owner_db 1 1)"

definition failing_db :: "(string, unit) database" where
  "failing_db = one_extension_db\<lparr>faults := [Some (Error ''connection terminated'')]\<rparr>"



section \<open>Calls to the store\<close>

lemma await_no_faults: "faults d = [] \<Longrightarrow> await d = (None, d)"
  by (simp add: await_def)

lemma run_select_all: "run_select rows select_from = rows"
  by (simp add: run_select_def select_from_def)

lemma db_select_no_faults: "faults d = [] \<Longrightarrow> db_select d rows q = (Inr (run_select rows q), d)"
  by (simp add: db_select_def await_no_faults)

lemma await_frame:
  "await d = (r, d') \<Longrightarrow>
     users d' = users d \<and> caseRequests d' = caseRequests d
     \<and> extensionRequests d' = extensionRequests d \<and> users_seq d' = users_seq d
     \<and> caseRequests_seq d' = caseRequests_seq d
     \<and> extensionRequests_seq d' = extensionRequests_seq d"
  by (auto simp: await_def split: list.splits)

lemma db_select_Inr:
  "db_select d rows q = (Inr xs, d') \<Longrightarrow> xs = run_select rows q \<and> await d = (None, d')"
  by (auto simp: db_select_def split: prod.splits option.splits)

lemma stored_request_A: "stored_fields (\<lambda>c. c) request_A = request_A"
  by (simp add: stored_fields_def request_A_def)

section \<open>Properties of the user repository\<close>

lemma createUser_succeeds:
  "faults d = [] \<Longrightarrow>
     \<exists>u d'. createUser d p now = (Inr (Some u), d') \<and> users d' = users d @ [u]"
  by (simp add: createUser_def db_select_no_faults await_no_faults Let_def)

lemma createUser_flags:
  assumes ok: "createUser d p now = (Inr (Some u), d')"
  shows "isAdmin u = (users d = []) \<and> isApproved u = (users d = [])"
proof -
  obtain r1 d1 where s: "db_select d (users d) select_from = (r1, d1)"
    by (cases "db_select d (users d) select_from")
  from ok s obtain xs where r1: "r1 = Inr xs"
    by (cases r1) (auto simp: createUser_def)
  from s r1 have xs: "xs = users d"
    using db_select_Inr [of d "users d" select_from xs d1] by (simp add: run_select_all)
  obtain r2 d2 where a: "await d1 = (r2, d2)"
    by (cases "await d1")
  from ok s r1 a have "r2 = None"
    by (cases r2) (auto simp: createUser_def Let_def)
  with ok s r1 a xs
  have "u = users_row (users_seq d2)
              (p\<lparr>InsertUser.isAdmin := Some (users d = []),
                 InsertUser.isApproved := Some (users d = [])\<rparr>) now"
    by (auto simp: createUser_def Let_def)
  then show ?thesis
    by (simp add: users_row_def)
qed

text \<open>
  C5. createUser makes the created user an approved administrator exactly when its check
  finds no user row; a user created while a row exists gets neither flag. With a store
  that answers, the call succeeds and appends the user.
\<close>

theorem createUser_first_user_only:
  "(faults d = [] \<longrightarrow>
      (\<exists>u d'. createUser d p now = (Inr (Some u), d') \<and> users d' = users d @ [u]))
   \<and> (\<forall>u d'. createUser d p now = (Inr (Some u), d') \<longrightarrow>
         (isAdmin u \<longleftrightarrow> users d = []) \<and> (isApproved u \<longleftrightarrow> users d = []))"
  using createUser_succeeds [of d p now] createUser_flags [of d p now] by blast

theorem createUser_first_user_only_witness:
  "(\<exists>u d'. createUser empty_db alice 1000 = (Inr (Some u), d') \<and> isAdmin u \<and> isApproved u)
   \<and> (\<exists>u d'. createUser (snd (createUser empty_db alice 1000)) mallory 2000 = (Inr (Some u), d')
         \<and> \<not> isAdmin u \<and> \<not> isApproved u)"
proof -
  let ?d1 = "snd (createUser empty_db alice 1000)"
  have f0: "faults empty_db = []"
    by (simp add: empty_db_def)
  have f1: "faults ?d1 = []" and u1: "users ?d1 \<noteq> []"
    by (simp_all add: createUser_def db_select_no_faults await_no_faults Let_def empty_db_def)
  have e0: "users empty_db = []"
    by (simp add: empty_db_def)
  from createUser_first_user_only [of empty_db alice 1000] f0 e0
  have a: "\<exists>u d'. createUser empty_db alice 1000 = (Inr (Some u), d') \<and> isAdmin u \<and> isApproved u"
    by blast
  from createUser_first_user_only [of ?d1 mallory 2000] f1 u1
  have b: "\<exists>u d'. createUser ?d1 mallory 2000 = (Inr (Some u), d') \<and> \<not> isAdmin u \<and> \<not> isApproved u"
    by blast
  from a b show ?thesis by blast
qed

text \<open>
  C10. The flags of the created user do not depend on the \<open>isAdmin\<close> and \<open>isApproved\<close>
  properties of the registration payload: two payloads that differ only there, run against
  the same store at the same time, give the same result and the same store.
\<close>

theorem createUser_ignores_payload_flags:
  "createUser d (p\<lparr>InsertUser.isAdmin := a, InsertUser.isApproved := b\<rparr>) now
     = createUser d p now"
  by (simp add: createUser_def Let_def split: prod.splits sum.splits option.splits)

section \<open>Selecting and updating rows\<close>

lemma take1_filter:
  "take (Suc 0) (filter c rows) = (case find c rows of None \<Rightarrow> [] | Some x \<Rightarrow> [x])"
  by (induction rows) auto

lemma run_select_by_id:
  "run_select rows (q_limit (Suc 0) (q_where c select_from))
     = (case find c rows of None \<Rightarrow> [] | Some x \<Rightarrow> [x])"
  by (simp add: run_select_def q_limit_def q_where_def select_from_def take1_filter)

lemma run_select_where: "run_select rows (q_where c select_from) = filter c rows"
  by (simp add: run_select_def q_where_def select_from_def)

lemma first_filter: "first (filter c rows) = find c rows"
  by (induction rows) auto

lemma first_updated_rows: "first (updated_rows c f rows) = map_option f (find c rows)"
  by (induction rows) (auto simp: updated_rows_def)

lemma find_update_rows:
  "(\<And>r. c r \<Longrightarrow> c (f r)) \<Longrightarrow> find c (update_rows c f rows) = map_option f (find c rows)"
  by (induction rows) (auto simp: update_rows_def)

lemma update_rows_none: "find c rows = None \<Longrightarrow> update_rows c f rows = rows"
  by (induction rows) (auto simp: update_rows_def split: if_splits)

lemma delete_rows_none: "find c rows = None \<Longrightarrow> delete_rows c rows = rows"
  by (induction rows) (auto simp: delete_rows_def split: if_splits)

lemma case_table_allows:
  "not_includes (object_get validTransitions_case cur) new = Inr False
     \<longleftrightarrow> (cur, new) \<in> set (allowed_transitions CaseKind)"
  by (auto simp: object_get_def validTransitions_case_def Object_prototype_def split: if_splits)

lemma extension_table_allows:
  "not_includes (object_get validTransitions_extension cur) new = Inr False
     \<longleftrightarrow> (cur, new) \<in> set (allowed_transitions ExtensionKind)"
  by (auto simp: object_get_def validTransitions_extension_def Object_prototype_def split: if_splits)

lemma set_status_id: "req_id (set_status new fb tu tc tr r) = req_id r"
  by (simp add: set_status_def)

lemma set_status_stamps:
  "status (set_status new fb tu tc tr r) = new \<and> updatedAt (set_status new fb tu tc tr r) = tu
   \<and> (new = ''pending'' \<longrightarrow> receivedAt (set_status new fb tu tc tr r) = Some tr
         \<and> completedAt (set_status new fb tu tc tr r) = completedAt r)
   \<and> (new = ''complete'' \<longrightarrow> completedAt (set_status new fb tu tc tr r) = Some tc)"
  by (simp add: set_status_def)

lemma updateCaseRequest_Inr:
  assumes "updateCaseRequest d i new fb tu tc tr = (Inr r', d')"
  shows "\<exists>r. find (\<lambda>r. req_id r = i) (caseRequests d) = Some r
            \<and> (status r, new) \<in> set (allowed_transitions CaseKind)
            \<and> r' = set_status new fb tu tc tr r
            \<and> caseRequests d' = update_rows (\<lambda>r. req_id r = i) (set_status new fb tu tc tr) (caseRequests d)"
  using assms unfolding case_table_allows [symmetric]
  by (auto simp: updateCaseRequest_def db_select_def Let_def run_select_by_id first_updated_rows
      dest!: await_frame split: prod.splits sum.splits list.splits option.splits bool.splits if_splits)

lemma updateCaseRequest_ok:
  assumes "faults d = []" and "find (\<lambda>r. req_id r = i) (caseRequests d) = Some r"
    and "(status r, new) \<in> set (allowed_transitions CaseKind)"
  shows "updateCaseRequest d i new fb tu tc tr
           = (Inr (set_status new fb tu tc tr r),
              d\<lparr>caseRequests := update_rows (\<lambda>r. req_id r = i) (set_status new fb tu tc tr) (caseRequests d)\<rparr>)"
  using assms(1,2) assms(3) [folded case_table_allows]
  by (simp add: updateCaseRequest_def db_select_no_faults await_no_faults Let_def run_select_by_id first_updated_rows)

lemma updateExtensionRequest_Inr:
  assumes "updateExtensionRequest d i new fb tu tc tr = (Inr r', d')"
  shows "\<exists>r. find (\<lambda>r. req_id r = i) (extensionRequests d) = Some r
            \<and> (status r, new) \<in> set (allowed_transitions ExtensionKind)
            \<and> r' = set_status new fb tu tc tr r
            \<and> extensionRequests d' = update_rows (\<lambda>r. req_id r = i) (set_status new fb tu tc tr) (extensionRequests d)"
  using assms unfolding extension_table_allows [symmetric]
  by (auto simp: updateExtensionRequest_def db_select_def Let_def run_select_by_id first_updated_rows
      dest!: await_frame split: prod.splits sum.splits list.splits option.splits bool.splits if_splits)

lemma updateExtensionRequest_ok:
  assumes "faults d = []" and "find (\<lambda>r. req_id r = i) (extensionRequests d) = Some r"
    and "(status r, new) \<in> set (allowed_transitions ExtensionKind)"
  shows "updateExtensionRequest d i new fb tu tc tr
           = (Inr (set_status new fb tu tc tr r),
              d\<lparr>extensionRequests := update_rows (\<lambda>r. req_id r = i) (set_status new fb tu tc tr) (extensionRequests d)\<rparr>)"
  using assms(1,2) assms(3) [folded extension_table_allows]
  by (simp add: updateExtensionRequest_def db_select_no_faults await_no_faults Let_def run_select_by_id first_updated_rows)

section \<open>Status updates\<close>

lemma case_update_stamps:
  assumes "find (\<lambda>r. req_id r = i) (caseRequests d) = Some r"
    and "(status r, new) \<in> set (allowed_transitions CaseKind)"
  shows "(faults d = [] \<longrightarrow> (\<exists>r' d'. updateCaseRequest d i new fb tu tc tr = (Inr r', d')))
       \<and> (\<forall>r' d'. updateCaseRequest d i new fb tu tc tr = (Inr r', d') \<longrightarrow>
             find (\<lambda>r. req_id r = i) (caseRequests d') = Some r'
             \<and> status r' = new \<and> updatedAt r' = tu
             \<and> (new = ''pending'' \<longrightarrow> receivedAt r' = Some tr \<and> completedAt r' = completedAt r)
             \<and> (new = ''complete'' \<longrightarrow> completedAt r' = Some tc))"
proof (intro conjI allI impI)
  assume "faults d = []"
  with assms show "\<exists>r' d'. updateCaseRequest d i new fb tu tc tr = (Inr r', d')"
    by (simp add: updateCaseRequest_ok)
next
  fix r' d'
  assume ok: "updateCaseRequest d i new fb tu tc tr = (Inr r', d')"
  from updateCaseRequest_Inr [OF ok] assms(1)
  have r': "r' = set_status new fb tu tc tr r"
    and t: "caseRequests d' = update_rows (\<lambda>r. req_id r = i) (set_status new fb tu tc tr) (caseRequests d)"
    by auto
  show "find (\<lambda>r. req_id r = i) (caseRequests d') = Some r'"
    by (simp add: t r' find_update_rows set_status_id assms(1))
  show "status r' = new" "updatedAt r' = tu"
    unfolding r' using set_status_stamps [of new fb tu tc tr r] by blast+
  { assume "new = ''pending''"
    then show "receivedAt r' = Some tr" "completedAt r' = completedAt r"
      unfolding r' using set_status_stamps [of new fb tu tc tr r] by blast+ }
  { assume "new = ''complete''"
    then show "completedAt r' = Some tc"
      unfolding r' using set_status_stamps [of new fb tu tc tr r] by blast }
qed

lemma extension_update_stamps:
  assumes "find (\<lambda>r. req_id r = i) (extensionRequests d) = Some r"
    and "(status r, new) \<in> set (allowed_transitions ExtensionKind)"
  shows "(faults d = [] \<longrightarrow> (\<exists>r' d'. updateExtensionRequest d i new fb tu tc tr = (Inr r', d')))
       \<and> (\<forall>r' d'. updateExtensionRequest d i new fb tu tc tr = (Inr r', d') \<longrightarrow>
             find (\<lambda>r. req_id r = i) (extensionRequests d') = Some r'
             \<and> status r' = new \<and> updatedAt r' = tu
             \<and> (new = ''pending'' \<longrightarrow> receivedAt r' = Some tr \<and> completedAt r' = completedAt r)
             \<and> (new = ''complete'' \<longrightarrow> completedAt r' = Some tc))"
proof (intro conjI allI impI)
  assume "faults d = []"
  with assms show "\<exists>r' d'. updateExtensionRequest d i new fb tu tc tr = (Inr r', d')"
    by (simp add: updateExtensionRequest_ok)
next
  fix r' d'
  assume ok: "updateExtensionRequest d i new fb tu tc tr = (Inr r', d')"
  from updateExtensionRequest_Inr [OF ok] assms(1)
  have r': "r' = set_status new fb tu tc tr r"
    and t: "extensionRequests d' = update_rows (\<lambda>r. req_id r = i) (set_status new fb tu tc tr) (extensionRequests d)"
    by auto
  show "find (\<lambda>r. req_id r = i) (extensionRequests d') = Some r'"
    by (simp add: t r' find_update_rows set_status_id assms(1))
  show "status r' = new" "updatedAt r' = tu"
    unfolding r' using set_status_stamps [of new fb tu tc tr r] by blast+
  { assume "new = ''pending''"
    then show "receivedAt r' = Some tr" "completedAt r' = completedAt r"
      unfolding r' using set_status_stamps [of new fb tu tc tr r] by blast+ }
  { assume "new = ''complete''"
    then show "completedAt r' = Some tc"
      unfolding r' using set_status_stamps [of new fb tu tc tr r] by blast }
qed

text \<open>
  C3. For every allowed transition of a case or an extension request: with a store that
  answers, the update succeeds; and whenever it succeeds the stored record carries the new
  status and \<open>updatedAt\<close> is stamped; on a transition to pending \<open>receivedAt\<close> is
  stamped and \<open>completedAt\<close> keeps its value (null stays null); on a transition to
  complete \<open>completedAt\<close> is stamped.
\<close>

theorem allowed_transition_stamps:
  "(find (\<lambda>r. req_id r = i) (caseRequests d) = Some r
      \<and> (status r, new) \<in> set (allowed_transitions CaseKind) \<longrightarrow>
      (faults d = [] \<longrightarrow> (\<exists>r' d'. updateCaseRequest d i new fb tu tc tr = (Inr r', d')))
      \<and> (\<forall>r' d'. updateCaseRequest d i new fb tu tc tr = (Inr r', d') \<longrightarrow>
            find (\<lambda>r. req_id r = i) (caseRequests d') = Some r'
            \<and> status r' = new \<and> updatedAt r' = tu
            \<and> (new = ''pending'' \<longrightarrow> receivedAt r' = Some tr \<and> completedAt r' = completedAt r)
            \<and> (new = ''complete'' \<longrightarrow> completedAt r' = Some tc)))
   \<and> (find (\<lambda>r. req_id r = i) (extensionRequests d) = Some x
      \<and> (status x, new) \<in> set (allowed_transitions ExtensionKind) \<longrightarrow>
      (faults d = [] \<longrightarrow> (\<exists>x' d'. updateExtensionRequest d i new fb tu tc tr = (Inr x', d')))
      \<and> (\<forall>x' d'. updateExtensionRequest d i new fb tu tc tr = (Inr x', d') \<longrightarrow>
            find (\<lambda>r. req_id r = i) (extensionRequests d') = Some x'
            \<and> status x' = new \<and> updatedAt x' = tu
            \<and> (new = ''pending'' \<longrightarrow> receivedAt x' = Some tr \<and> completedAt x' = completedAt x)
            \<and> (new = ''complete'' \<longrightarrow> completedAt x' = Some tc)))"
  using case_update_stamps [of i d r new fb tu tc tr]
    extension_update_stamps [of i d x new fb tu tc tr]
  by blast

lemma one_extension_db_eq:
  "one_extension_db =
     \<lparr>users = [],
      caseRequests =
        [\<lparr>req_id = 1, userId = 1, payload = request_A, status = ''submitted'',
          adminFeedback = None, isResubmission = False, originalRequestId = None,
          changes = None, hiddenBy = Some [], isArchived = False, createdAt = 1000,
          updatedAt = 1000, receivedAt = None, completedAt = None\<rparr>],
      extensionRequests =
        [\<lparr>req_id = 1, userId = 1, payload = (), status = ''submitted'',
          adminFeedback = None, isResubmission = False, originalRequestId = None,
          changes = None, hiddenBy = Some [], isArchived = False, createdAt = 1500,
          updatedAt = 1500, receivedAt = None, completedAt = None\<rparr>],
      users_seq = 1, caseRequests_seq = 2, extensionRequests_seq = 2, faults = [],
      jsonb = (\<lambda>c. c)\<rparr>"
  by (simp add: one_extension_db_def one_case_db_def stored_request_A createExtensionRequest_def
      createCaseRequest_def original_changes_def empty_db_def await_def Let_def)

lemma pending_db_case:
  "faults pending_db = []
   \<and> find (\<lambda>r. req_id r = 1) (caseRequests pending_db)
       = Some \<lparr>req_id = 1, userId = 1, payload = request_A, status = ''pending'',
                adminFeedback = None, isResubmission = False, originalRequestId = None,
                changes = None, hiddenBy = Some [], isArchived = False, createdAt = 1000,
                updatedAt = 2000, receivedAt = Some 2002, completedAt = None\<rparr>"
proof -
  let ?r = "\<lparr>req_id = 1, userId = 1, payload = request_A, status = ''submitted'',
          adminFeedback = None, isResubmission = False, originalRequestId = None,
          changes = None, hiddenBy = Some [], isArchived = False, createdAt = 1000,
          updatedAt = 1000, receivedAt = None, completedAt = None\<rparr>"
  have f: "faults one_extension_db = []"
    by (simp add: one_extension_db_eq)
  have c: "find (\<lambda>r. req_id r = 1) (caseRequests one_extension_db) = Some ?r"
    by (simp add: one_extension_db_eq)
  have a: "(status ?r, ''pending'') \<in> set (allowed_transitions CaseKind)"
    by simp
  show ?thesis
    unfolding pending_db_def updateCaseRequest_ok [OF f c a]
    by (simp add: one_extension_db_eq update_rows_def set_status_def)
qed

theorem allowed_transition_stamps_witness:
  "(\<exists>r' d'. updateCaseRequest one_extension_db 1 ''pending'' None 2000 2001 2002 = (Inr r', d')
      \<and> status r' = ''pending'' \<and> updatedAt r' = 2000 \<and> receivedAt r' = Some 2002
      \<and> completedAt r' = None)
   \<and> (\<exists>x' d'. updateExtensionRequest one_extension_db 1 ''pending'' None 2000 2001 2002 = (Inr x', d')
      \<and> status x' = ''pending'' \<and> updatedAt x' = 2000 \<and> receivedAt x' = Some 2002
      \<and> completedAt x' = None)
   \<and> (\<exists>r' d'. updateCaseRequest pending_db 1 ''complete'' (Some ''done'') 3000 3001 3002 = (Inr r', d')
      \<and> status r' = ''complete'' \<and> updatedAt r' = 3000 \<and> completedAt r' = Some 3001)"
proof -
  let ?r = "\<lparr>req_id = 1, userId = 1, payload = request_A, status = ''submitted'',
          adminFeedback = None, isResubmission = False, originalRequestId = None,
          changes = None, hiddenBy = Some [], isArchived = False, createdAt = 1000,
          updatedAt = 1000, receivedAt = None, completedAt = None\<rparr>"
  let ?x = "\<lparr>req_id = 1, userId = 1, payload = (), status = ''submitted'',
          adminFeedback = None, isResubmission = False, originalRequestId = None,
          changes = None, hiddenBy = Some [], isArchived = False, createdAt = 1500,
          updatedAt = 1500, receivedAt = None, completedAt = None\<rparr>"
  have f: "faults one_extension_db = []"
    by (simp add: one_extension_db_eq)
  have c: "find (\<lambda>r. req_id r = 1) (caseRequests one_extension_db) = Some ?r"
    by (simp add: one_extension_db_eq)
  have e: "find (\<lambda>r. req_id r = 1) (extensionRequests one_extension_db) = Some ?x"
    by (simp add: one_extension_db_eq)
  have ac: "(status ?r, ''pending'') \<in> set (allowed_transitions CaseKind)"
    and ae: "(status ?x, ''pending'') \<in> set (allowed_transitions ExtensionKind)"
    by simp_all
  have nc: "completedAt ?r = None" and ne: "completedAt ?x = None"
    by simp_all
  from allowed_transition_stamps [of 1 one_extension_db ?r "''pending''" None 2000 2001 2002 ?x]
    f c e ac ae
  have "(\<exists>r' d'. updateCaseRequest one_extension_db 1 ''pending'' None 2000 2001 2002 = (Inr r', d')
      \<and> status r' = ''pending'' \<and> updatedAt r' = 2000 \<and> receivedAt r' = Some 2002
      \<and> completedAt r' = completedAt ?r)
   \<and> (\<exists>x' d'. updateExtensionRequest one_extension_db 1 ''pending'' None 2000 2001 2002 = (Inr x', d')
      \<and> status x' = ''pending'' \<and> updatedAt x' = 2000 \<and> receivedAt x' = Some 2002
      \<and> completedAt x' = completedAt ?x)"
    by blast
  then have pending: "(\<exists>r' d'. updateCaseRequest one_extension_db 1 ''pending'' None 2000 2001 2002 = (Inr r', d')
      \<and> status r' = ''pending'' \<and> updatedAt r' = 2000 \<and> receivedAt r' = Some 2002
      \<and> completedAt r' = None)
   \<and> (\<exists>x' d'. updateExtensionRequest one_extension_db 1 ''pending'' None 2000 2001 2002 = (Inr x', d')
      \<and> status x' = ''pending'' \<and> updatedAt x' = 2000 \<and> receivedAt x' = Some 2002
      \<and> completedAt x' = None)"
    unfolding nc ne .
  let ?p = "\<lparr>req_id = 1, userId = 1, payload = request_A, status = ''pending'',
                adminFeedback = None, isResubmission = False, originalRequestId = None,
                changes = None, hiddenBy = Some [], isArchived = False, createdAt = 1000,
                updatedAt = 2000, receivedAt = Some 2002, completedAt = None\<rparr>"
  have pf: "faults pending_db = []"
    and pc: "find (\<lambda>r. req_id r = 1) (caseRequests pending_db) = Some ?p"
    using pending_db_case by simp_all
  have pa: "(status ?p, ''complete'') \<in> set (allowed_transitions CaseKind)"
    by simp
  from allowed_transition_stamps [where i = 1 and d = pending_db and r = ?p
      and new = "''complete''" and fb = "Some ''done''" and tu = 3000 and tc = 3001 and tr = 3002]
    pf pc pa
  have complete: "\<exists>r' d'. updateCaseRequest pending_db 1 ''complete'' (Some ''done'') 3000 3001 3002 = (Inr r', d')
      \<and> status r' = ''complete'' \<and> updatedAt r' = 3000 \<and> completedAt r' = Some 3001"
    by blast
  from pending complete show ?thesis
    by (intro conjI) (erule conjunct1, erule conjunct2, assumption)
qed



section \<open>Denied transitions\<close>

lemma not_listed_case:
  "(cur, new) \<notin> set (allowed_transitions CaseKind) \<Longrightarrow> cur \<notin> set Object_prototype \<Longrightarrow>
     not_includes (object_get validTransitions_case cur) new = Inr True"
  by (auto simp: object_get_def validTransitions_case_def split: option.splits if_splits)

lemma not_listed_extension:
  "(cur, new) \<notin> set (allowed_transitions ExtensionKind) \<Longrightarrow> cur \<notin> set Object_prototype \<Longrightarrow>
     not_includes (object_get validTransitions_extension cur) new = Inr True"
  by (auto simp: object_get_def validTransitions_extension_def split: option.splits if_splits)

lemma updateCaseRequest_denied:
  assumes "await d = (None, d1)" and "find (\<lambda>r. req_id r = i) (caseRequests d) = Some r"
    and "(status r, new) \<notin> set (allowed_transitions CaseKind)"
    and "status r \<notin> set Object_prototype"
  shows "updateCaseRequest d i new fb tu tc tr
           = (Inl (Error (''Invalid status transition from '' @ status r @ '' to '' @ new)), d1)"
  using assms(1,2) not_listed_case [OF assms(3,4)]
  by (simp add: updateCaseRequest_def db_select_def Let_def run_select_by_id)

lemma updateExtensionRequest_denied:
  assumes "await d = (None, d1)" and "find (\<lambda>r. req_id r = i) (extensionRequests d) = Some r"
    and "(status r, new) \<notin> set (allowed_transitions ExtensionKind)"
    and "status r \<notin> set Object_prototype"
  shows "updateExtensionRequest d i new fb tu tc tr
           = (Inl (Error (''Invalid status transition from '' @ status r @ '' to '' @ new)), d1)"
  using assms(1,2) not_listed_extension [OF assms(3,4)]
  by (simp add: updateExtensionRequest_def db_select_def Let_def run_select_by_id)

text \<open>
  An unlisted transition from a current status that is not the name of a member of
  \<^verbatim>\<open>Object.prototype\<close> is refused with the invalid-transition error, which names both
  statuses, and the tables are as they were.
\<close>

theorem unlisted_transition_denied:
  assumes "await d = (None, d1)"
  shows "(find (\<lambda>r. req_id r = i) (caseRequests d) = Some r
            \<and> status r \<notin> set Object_prototype
            \<and> (status r, new) \<notin> set (allowed_transitions CaseKind) \<longrightarrow>
            updateCaseRequest d i new fb tu tc tr
              = (Inl (Error (''Invalid status transition from '' @ status r @ '' to '' @ new)), d1))
       \<and> (find (\<lambda>r. req_id r = i) (extensionRequests d) = Some x
            \<and> status x \<notin> set Object_prototype
            \<and> (status x, new) \<notin> set (allowed_transitions ExtensionKind) \<longrightarrow>
            updateExtensionRequest d i new fb tu tc tr
              = (Inl (Error (''Invalid status transition from '' @ status x @ '' to '' @ new)), d1))
       \<and> caseRequests d1 = caseRequests d \<and> extensionRequests d1 = extensionRequests d"
  using assms updateCaseRequest_denied [of d d1 i r new fb tu tc tr]
    updateExtensionRequest_denied [of d d1 i x new fb tu tc tr] await_frame [of d None d1]
  by auto

theorem unlisted_transition_denied_witness:
  "updateCaseRequest one_extension_db 1 ''complete'' None 2000 2001 2002
     = (Inl (Error ''Invalid status transition from submitted to complete''), one_extension_db)
   \<and> updateExtensionRequest one_extension_db 1 ''submitted'' None 2000 2001 2002
     = (Inl (Error ''Invalid status transition from submitted to submitted''), one_extension_db)"
proof -
  let ?r = "\<lparr>req_id = 1, userId = 1, payload = request_A, status = ''submitted'',
          adminFeedback = None, isResubmission = False, originalRequestId = None,
          changes = None, hiddenBy = Some [], isArchived = False, createdAt = 1000,
          updatedAt = 1000, receivedAt = None, completedAt = None\<rparr>"
  let ?x = "\<lparr>req_id = 1, userId = 1, payload = (), status = ''submitted'',
          adminFeedback = None, isResubmission = False, originalRequestId = None,
          changes = None, hiddenBy = Some [], isArchived = False, createdAt = 1500,
          updatedAt = 1500, receivedAt = None, completedAt = None\<rparr>"
  have a: "await one_extension_db = (None, one_extension_db)"
    by (simp add: one_extension_db_eq await_def)
  have p: "status ?r \<notin> set Object_prototype" and q: "status ?x \<notin> set Object_prototype"
    by (simp_all add: Object_prototype_def)
  have c: "find (\<lambda>r. req_id r = 1) (caseRequests one_extension_db) = Some ?r"
    by (simp add: one_extension_db_eq)
  have e: "find (\<lambda>r. req_id r = 1) (extensionRequests one_extension_db) = Some ?x"
    by (simp add: one_extension_db_eq)
  have nc: "(status ?r, ''complete'') \<notin> set (allowed_transitions CaseKind)"
    and ne: "(status ?x, ''submitted'') \<notin> set (allowed_transitions ExtensionKind)"
    by simp_all
  from unlisted_transition_denied [OF a, where r = ?r and i = 1 and new = "''complete''" and x = ?x
      and fb = None and tu = 2000 and tc = 2001 and tr = 2002] c nc p
  have 1: "updateCaseRequest one_extension_db 1 ''complete'' None 2000 2001 2002
     = (Inl (Error ''Invalid status transition from submitted to complete''), one_extension_db)"
    by simp
  from unlisted_transition_denied [OF a, where r = ?r and i = 1 and new = "''submitted''" and x = ?x
      and fb = None and tu = 2000 and tc = 2001 and tr = 2002] e ne q
  have 2: "updateExtensionRequest one_extension_db 1 ''submitted'' None 2000 2001 2002
     = (Inl (Error ''Invalid status transition from submitted to submitted''), one_extension_db)"
    by simp
  from 1 2 show ?thesis by blast
qed

text \<open>
  C1. The specification has every unlisted transition refused with the invalid-transition
  error, a current status that the table does not know included. When that status is the
  name of a member of \<^verbatim>\<open>Object.prototype\<close>, the property read finds the inherited
  member and the call of its missing \<open>includes\<close> raises a TypeError: the update fails,
  but not with the invalid-transition error. Here an extension request was created with
  the status \<open>constructor\<close> (createExtensionRequest stores the status it is given).
\<close>

theorem inherited_status_raises_TypeError:
  "map status (extensionRequests inherited_status_db) = [''constructor'']
   \<and> fst (updateExtensionRequest inherited_status_db 1 ''pending'' None 2000 2001 2002)
       = Inl (TypeError ''validTransitions[currentStatus]?.includes is not a function'')
   \<and> fst (updateExtensionRequest inherited_status_db 1 ''pending'' None 2000 2001 2002)
       \<noteq> Inl (Error ''Invalid status transition from constructor to pending'')"
  by (simp add: inherited_status_db_def updateExtensionRequest_def createExtensionRequest_def
      empty_db_def await_def db_select_def run_select_by_id object_get_def
      validTransitions_extension_def Object_prototype_def Let_def)

section \<open>Creation\<close>

lemma db_select_cases:
  obtains (fault) e d1 where "db_select d rows q = (Inl e, d1)"
  | (rows) d1 where "db_select d rows q = (Inr (run_select rows q), d1)" "await d = (None, d1)"
proof (cases "db_select d rows q")
  case (Pair res d1)
  show ?thesis
  proof (cases res)
    case (Inl e)
    with Pair fault show ?thesis by simp
  next
    case (Inr xs)
    with Pair db_select_Inr [of d rows q xs d1] rows show ?thesis by simp
  qed
qed

lemma original_changes_Inr:
  assumes "original_changes d js request origId = (Inr c, d1)"
  shows "c = stored_changes js (caseRequests d) request origId \<and> caseRequests d1 = caseRequests d"
proof (cases origId)
  case None
  with assms show ?thesis by (simp add: original_changes_def stored_changes_def)
next
  case (Some oid)
  show ?thesis
  proof (cases "oid = 0")
    case True
    with Some assms show ?thesis by (simp add: original_changes_def stored_changes_def)
  next
    case False
    let ?q = "q_limit 1 (q_where (\<lambda>r. req_id r = oid) select_from) :: 'a CaseRequest select_config"
    show ?thesis
    proof (cases d "caseRequests d" ?q rule: db_select_cases)
      case (fault e d2)
      with Some False assms show ?thesis by (simp add: original_changes_def)
    next
      case (rows d2)
      with Some False assms await_frame [of d None d2] show ?thesis
        by (simp add: original_changes_def stored_changes_def run_select_by_id
            split: option.splits)
    qed
  qed
qed

lemma original_changes_succeeds:
  "faults d = [] \<Longrightarrow> \<exists>c. original_changes d js request origId = (Inr c, d)"
  by (cases origId)
     (simp_all add: original_changes_def db_select_no_faults run_select_by_id split: option.splits)

lemma createCaseRequest_Inr:
  assumes "createCaseRequest d js request uid origId now = (Inr res, d')"
  shows "\<exists>r. res = Some r \<and> caseRequests d' = caseRequests d @ [r]
            \<and> status r = (if truthy origId then ''resubmitted'' else ''submitted'')
            \<and> isResubmission r = truthy origId
            \<and> createdAt r = now \<and> updatedAt r = now
            \<and> userId r = uid \<and> originalRequestId r = origId
            \<and> changes r = (if stored_changes js (caseRequests d) request origId = [] then None
                           else Some (stored_changes js (caseRequests d) request origId))"
proof -
  obtain r1 d1 where o: "original_changes d js request origId = (r1, d1)"
    by (cases "original_changes d js request origId")
  from assms o obtain c where r1: "r1 = Inr c"
    by (cases r1) (auto simp: createCaseRequest_def)
  from original_changes_Inr [of d js request origId c d1] o r1
  have c: "c = stored_changes js (caseRequests d) request origId"
    and t1: "caseRequests d1 = caseRequests d"
    by simp_all
  obtain r2 d2 where a: "await d1 = (r2, d2)"
    by (cases "await d1")
  from assms o r1 a have r2: "r2 = None"
    by (cases r2) (auto simp: createCaseRequest_def)
  from await_frame [OF a] t1 have t2: "caseRequests d2 = caseRequests d"
    by simp
  define row where "row =
      \<lparr>req_id = caseRequests_seq d2, userId = uid, payload = stored_fields (jsonb d2) request,
       status = (if truthy origId then ''resubmitted'' else ''submitted''),
       adminFeedback = None, isResubmission = truthy origId, originalRequestId = origId,
       changes = (if length c > 0 then Some c else None),
       hiddenBy = Some [], isArchived = False, createdAt = now, updatedAt = now,
       receivedAt = None, completedAt = None\<rparr>"
  have "createCaseRequest d js request uid origId now
          = (Inr (Some row), d2\<lparr>caseRequests := caseRequests d2 @ [row],
                               caseRequests_seq := caseRequests_seq d2 + 1\<rparr>)"
    using o r1 a r2 by (simp add: createCaseRequest_def Let_def row_def)
  with assms have res: "res = Some row"
    and d': "d' = d2\<lparr>caseRequests := caseRequests d2 @ [row],
                    caseRequests_seq := caseRequests_seq d2 + 1\<rparr>"
    by simp_all
  have "caseRequests d' = caseRequests d @ [row]"
    by (simp add: d' t2)
  moreover have "changes row = (if stored_changes js (caseRequests d) request origId = [] then None
                           else Some (stored_changes js (caseRequests d) request origId))"
    by (simp add: row_def c)
  ultimately show ?thesis
    using res by (simp add: row_def)
qed

lemma createCaseRequest_succeeds:
  assumes "faults d = []"
  shows "\<exists>r d'. createCaseRequest d js request uid origId now = (Inr (Some r), d')"
proof -
  from original_changes_succeeds [OF assms, of js request origId]
  obtain c where "original_changes d js request origId = (Inr c, d)" ..
  with assms show ?thesis
    by (simp add: createCaseRequest_def await_no_faults Let_def)
qed

lemma createExtensionRequest_Inr:
  assumes "createExtensionRequest d request uid st now = (Inr res, d')"
  shows "\<exists>r. res = Some r \<and> extensionRequests d' = extensionRequests d @ [r]
            \<and> status r = st \<and> createdAt r = now \<and> updatedAt r = now
            \<and> payload r = request \<and> userId r = uid"
proof -
  obtain r2 d2 where a: "await d = (r2, d2)"
    by (cases "await d")
  from assms a have r2: "r2 = None"
    by (cases r2) (auto simp: createExtensionRequest_def)
  from assms a r2 await_frame [OF a] show ?thesis
    by (auto simp: createExtensionRequest_def Let_def)
qed

lemma createExtensionRequest_succeeds:
  "faults d = [] \<Longrightarrow> \<exists>r d'. createExtensionRequest d request uid st now = (Inr (Some r), d')"
  by (simp add: createExtensionRequest_def await_no_faults Let_def)

lemma stored_changes_missing:
  "find (\<lambda>r. req_id r = oid) rows = None \<Longrightarrow> stored_changes js rows request (Some oid) = []"
  by (simp add: stored_changes_def)

lemma case_create:
  assumes ok: "createCaseRequest d js request uid origId now = (Inr res, d')"
  shows "\<exists>r. res = Some r \<and> caseRequests d' = caseRequests d @ [r]
            \<and> (truthy origId \<longrightarrow> status r = ''resubmitted'' \<and> isResubmission r)
            \<and> (origId = None \<longrightarrow> status r = ''submitted'' \<and> \<not> isResubmission r)
            \<and> (\<forall>oid. origId = Some oid \<and> find (\<lambda>r. req_id r = oid) (caseRequests d) = None
                   \<longrightarrow> changes r = None)
            \<and> createdAt r = now \<and> updatedAt r = now"
proof -
  from createCaseRequest_Inr [OF ok] obtain r where
    r: "res = Some r" "caseRequests d' = caseRequests d @ [r]"
       "status r = (if truthy origId then ''resubmitted'' else ''submitted'')"
       "isResubmission r = truthy origId" "createdAt r = now" "updatedAt r = now"
       "changes r = (if stored_changes js (caseRequests d) request origId = [] then None
                     else Some (stored_changes js (caseRequests d) request origId))"
    by blast
  have h: "\<forall>oid. origId = Some oid \<and> find (\<lambda>r. req_id r = oid) (caseRequests d) = None
           \<longrightarrow> changes r = None"
  proof (intro allI impI)
    fix oid
    assume "origId = Some oid \<and> find (\<lambda>r. req_id r = oid) (caseRequests d) = None"
    then have "stored_changes js (caseRequests d) request origId = []"
      by (simp add: stored_changes_missing)
    with r(7) show "changes r = None" by simp
  qed
  from r(1-6) h show ?thesis by auto
qed

text \<open>
  C2, as the code has it. A case request created with a truthy (present and non-zero)
  original request id has status resubmitted and is marked a resubmission; when the
  original is missing the change list is skipped and creation still succeeds; without an
  original request id the status is submitted. An extension request is created with the
  status its caller passes. Both set \<open>createdAt\<close> and \<open>updatedAt\<close> to the same reading
  of the clock, and both succeed when the store answers.
\<close>

theorem create_status_and_timestamps:
  "(\<forall>res d'. createCaseRequest d js request uid origId now = (Inr res, d') \<longrightarrow>
      (\<exists>r. res = Some r \<and> caseRequests d' = caseRequests d @ [r]
         \<and> (truthy origId \<longrightarrow> status r = ''resubmitted'' \<and> isResubmission r)
         \<and> (origId = None \<longrightarrow> status r = ''submitted'' \<and> \<not> isResubmission r)
         \<and> (\<forall>oid. origId = Some oid \<and> find (\<lambda>r. req_id r = oid) (caseRequests d) = None
                \<longrightarrow> changes r = None)
         \<and> createdAt r = now \<and> updatedAt r = now))
   \<and> (\<forall>res d'. createExtensionRequest d x uid st now = (Inr res, d') \<longrightarrow>
      (\<exists>r. res = Some r \<and> extensionRequests d' = extensionRequests d @ [r]
         \<and> status r = st \<and> createdAt r = now \<and> updatedAt r = now))
   \<and> (faults d = [] \<longrightarrow>
        (\<exists>r d'. createCaseRequest d js request uid origId now = (Inr (Some r), d'))
        \<and> (\<exists>r d'. createExtensionRequest d x uid st now = (Inr (Some r), d')))"
proof (intro conjI allI impI)
  fix res d'
  assume "createCaseRequest d js request uid origId now = (Inr res, d')"
  then show "\<exists>r. res = Some r \<and> caseRequests d' = caseRequests d @ [r]
         \<and> (truthy origId \<longrightarrow> status r = ''resubmitted'' \<and> isResubmission r)
         \<and> (origId = None \<longrightarrow> status r = ''submitted'' \<and> \<not> isResubmission r)
         \<and> (\<forall>oid. origId = Some oid \<and> find (\<lambda>r. req_id r = oid) (caseRequests d) = None
                \<longrightarrow> changes r = None)
         \<and> createdAt r = now \<and> updatedAt r = now"
    by (rule case_create)
next
  fix res d'
  assume "createExtensionRequest d x uid st now = (Inr res, d')"
  from createExtensionRequest_Inr [OF this]
  show "\<exists>r. res = Some r \<and> extensionRequests d' = extensionRequests d @ [r]
         \<and> status r = st \<and> createdAt r = now \<and> updatedAt r = now"
    by blast
next
  assume "faults d = []"
  then show "\<exists>r d'. createCaseRequest d js request uid origId now = (Inr (Some r), d')"
    by (rule createCaseRequest_succeeds)
next
  assume "faults d = []"
  then show "\<exists>r d'. createExtensionRequest d x uid st now = (Inr (Some r), d')"
    by (rule createExtensionRequest_succeeds)
qed

theorem create_status_and_timestamps_witness:
  "(\<exists>r d'. createCaseRequest one_extension_db Str request_A 1 (Some 5) 3000 = (Inr (Some r), d')
      \<and> status r = ''resubmitted'' \<and> isResubmission r \<and> changes r = None
      \<and> createdAt r = 3000 \<and> updatedAt r = 3000)
   \<and> (\<exists>r d'. createCaseRequest one_extension_db Str request_A 1 None 3000 = (Inr (Some r), d')
      \<and> status r = ''submitted'' \<and> createdAt r = 3000 \<and> updatedAt r = 3000)
   \<and> (\<exists>r d'. createExtensionRequest one_extension_db () 1 ''submitted'' 3000 = (Inr (Some r), d')
      \<and> status r = ''submitted'' \<and> createdAt r = 3000 \<and> updatedAt r = 3000)"
proof -
  have f: "faults one_extension_db = []"
    by (simp add: one_extension_db_eq)
  have m: "find (\<lambda>r. req_id r = 5) (caseRequests one_extension_db) = None"
    by (simp add: one_extension_db_eq)
  have t: "truthy (Some 5)"
    by simp
  from create_status_and_timestamps
         [where d = one_extension_db and js = Str and request = request_A and uid = 1
            and origId = "Some 5" and now = 3000 and x = "()" and st = "''submitted''"] f m t
  have 1: "\<exists>r d'. createCaseRequest one_extension_db Str request_A 1 (Some 5) 3000 = (Inr (Some r), d')
      \<and> status r = ''resubmitted'' \<and> isResubmission r \<and> changes r = None
      \<and> createdAt r = 3000 \<and> updatedAt r = 3000"
    by (elim conjE) fastforce
  from create_status_and_timestamps
         [where d = one_extension_db and js = Str and request = request_A and uid = 1
            and origId = None and now = 3000 and x = "()" and st = "''submitted''"] f
  have 2: "\<exists>r d'. createCaseRequest one_extension_db Str request_A 1 None 3000 = (Inr (Some r), d')
      \<and> status r = ''submitted'' \<and> createdAt r = 3000 \<and> updatedAt r = 3000"
    by (elim conjE) fastforce
  from create_status_and_timestamps
         [where d = one_extension_db and js = Str and request = request_A and uid = 1
            and origId = None and now = 3000 and x = "()" and st = "''submitted''"] f
  have 3: "\<exists>r d'. createExtensionRequest one_extension_db () 1 ''submitted'' 3000 = (Inr (Some r), d')
      \<and> status r = ''submitted'' \<and> createdAt r = 3000 \<and> updatedAt r = 3000"
    by (elim conjE) fastforce
  from 1 2 3 show ?thesis by blast
qed

text \<open>
  The same statement does not hold of every create. Without any original request id, an
  extension request created with the status pending is stored as pending, not as
  submitted; and a case request created with the original request id 0, which is present
  but falsy, is stored as submitted and not as a resubmission.
\<close>

theorem create_status_not_always_derived:
  "fst (createExtensionRequest empty_db () 1 ''pending'' 1000)
     = Inr (Some \<lparr>req_id = 1, userId = 1, payload = (), status = ''pending'',
                  adminFeedback = None, isResubmission = False, originalRequestId = None,
                  changes = None, hiddenBy = Some [], isArchived = False, createdAt = 1000,
                  updatedAt = 1000, receivedAt = None, completedAt = None\<rparr>)
   \<and> ''pending'' \<noteq> ''submitted''
   \<and> fst (createCaseRequest empty_db Str request_A 1 (Some 0) 1000)
     = Inr (Some \<lparr>req_id = 1, userId = 1, payload = request_A, status = ''submitted'',
                  adminFeedback = None, isResubmission = False, originalRequestId = Some 0,
                  changes = None, hiddenBy = Some [], isArchived = False, createdAt = 1000,
                  updatedAt = 1000, receivedAt = None, completedAt = None\<rparr>)
   \<and> ''submitted'' \<noteq> ''resubmitted''"
  by (simp add: createExtensionRequest_def createCaseRequest_def original_changes_def
      stored_request_A empty_db_def await_def Let_def)

section \<open>The change list\<close>

lemma compare_fields:
  "map field (compare_with_original js orig req)
     = filter (\<lambda>f. get_field f orig \<noteq> get_field f req) fieldsToCompare
       @ (if js (corrections orig) \<noteq> js (corrections req) then [''corrections''] else [])"
  by (simp add: compare_with_original_def Let_def comp_def)

lemma corrections_not_compared: "''corrections'' \<notin> set fieldsToCompare"
  by (simp add: fieldsToCompare_def)

lemma distinct_fieldsToCompare: "distinct fieldsToCompare"
  by (simp add: fieldsToCompare_def)

lemma compare_distinct: "distinct (map field (compare_with_original js orig req))"
  unfolding compare_fields
  using corrections_not_compared distinct_fieldsToCompare by auto

lemma compare_entries:
  assumes "c \<in> set (compare_with_original js orig req)"
  shows "(field c \<in> set fieldsToCompare
            \<and> from c = Str (String (get_field (field c) orig))
            \<and> to c = Str (String (get_field (field c) req)))
         \<or> (field c = ''corrections''
            \<and> from c = js (corrections orig) \<and> to c = js (corrections req))"
  using assms by (auto simp: compare_with_original_def Let_def split: if_splits)

lemma compare_same: "compare_with_original js a a = []"
  by (simp add: compare_with_original_def)

lemma compare_Nil_iff:
  "compare_with_original js orig req = []
     \<longleftrightarrow> (\<forall>f \<in> set fieldsToCompare. get_field f orig = get_field f req)
         \<and> js (corrections orig) = js (corrections req)"
  by (auto simp: compare_with_original_def Let_def filter_empty_conv)

lemma stored_changes_found:
  "oid \<noteq> 0 \<Longrightarrow> find (\<lambda>r. req_id r = oid) rows = Some original \<Longrightarrow>
     stored_changes js rows request (Some oid) = compare_with_original js (payload original) request"
  by (simp add: stored_changes_def)

lemma resubmission_changes:
  assumes ok: "createCaseRequest d js request uid (Some oid) now = (Inr res, d')"
    and "oid \<noteq> 0" and "find (\<lambda>r. req_id r = oid) (caseRequests d) = Some original"
  shows "\<exists>row. res = Some row
           \<and> changes row = (if compare_with_original js (payload original) request = [] then None
                             else Some (compare_with_original js (payload original) request))"
  using createCaseRequest_Inr [OF ok] stored_changes_found [OF assms(2,3), of js request]
  by auto

lemma get_field_tracked:
  "get_field ''sadNumber'' r = sadNumber r"
  "get_field ''sadDate'' r = sadDate r"
  "get_field ''declarantCompany'' r = declarantCompany r"
  "get_field ''declarantName'' r = declarantName r"
  "get_field ''documentHolder'' r = documentHolder r"
  "get_field ''documentHolderPhone'' r = documentHolderPhone r"
  "get_field ''reason'' r = reason r"
  by (simp_all add: get_field_def)

lemma compare_explicit:
  "compare_with_original js orig req =
       (if sadNumber orig \<noteq> sadNumber req
        then [\<lparr>field = ''sadNumber'', from = Str (String (sadNumber orig)),
                to = Str (String (sadNumber req))\<rparr>]
        else [])
       @ (if sadDate orig \<noteq> sadDate req
        then [\<lparr>field = ''sadDate'', from = Str (String (sadDate orig)),
                to = Str (String (sadDate req))\<rparr>]
        else [])
       @ (if declarantCompany orig \<noteq> declarantCompany req
        then [\<lparr>field = ''declarantCompany'', from = Str (String (declarantCompany orig)),
                to = Str (String (declarantCompany req))\<rparr>]
        else [])
       @ (if declarantName orig \<noteq> declarantName req
        then [\<lparr>field = ''declarantName'', from = Str (String (declarantName orig)),
                to = Str (String (declarantName req))\<rparr>]
        else [])
       @ (if documentHolder orig \<noteq> documentHolder req
        then [\<lparr>field = ''documentHolder'', from = Str (String (documentHolder orig)),
                to = Str (String (documentHolder req))\<rparr>]
        else [])
       @ (if documentHolderPhone orig \<noteq> documentHolderPhone req
        then [\<lparr>field = ''documentHolderPhone'', from = Str (String (documentHolderPhone orig)),
                to = Str (String (documentHolderPhone req))\<rparr>]
        else [])
       @ (if reason orig \<noteq> reason req
        then [\<lparr>field = ''reason'', from = Str (String (reason orig)),
                to = Str (String (reason req))\<rparr>]
        else [])
       @ (if js (corrections orig) \<noteq> js (corrections req)
        then [\<lparr>field = ''corrections'', from = js (corrections orig),
                to = js (corrections req)\<rparr>]
        else [])"
  by (simp add: compare_with_original_def fieldsToCompare_def get_field_tracked Let_def)

text \<open>
  C4. The change list is, in this order, one entry for each of the seven tracked scalar
  fields (SAD number, SAD date, declarant company, declarant name, document holder,
  document holder phone, reason) whose value differs, holding the field's name and the
  two values as text, followed by one entry for the corrections when their serialisations
  differ, holding the two serialisations. As text, undefined and null read
  \<open>undefined\<close> and \<open>null\<close> and a string reads as itself. A record compared with
  itself gives the empty list. The stored \<open>changes\<close> of a resubmission is null when
  the list is empty and the list otherwise, so it is never an empty list, and it is null
  when the resubmitted payload is the original's.
\<close>

theorem change_list_exact:
  "compare_with_original js orig req =
       (if sadNumber orig \<noteq> sadNumber req
        then [\<lparr>field = ''sadNumber'', from = Str (String (sadNumber orig)),
                to = Str (String (sadNumber req))\<rparr>]
        else [])
       @ (if sadDate orig \<noteq> sadDate req
        then [\<lparr>field = ''sadDate'', from = Str (String (sadDate orig)),
                to = Str (String (sadDate req))\<rparr>]
        else [])
       @ (if declarantCompany orig \<noteq> declarantCompany req
        then [\<lparr>field = ''declarantCompany'', from = Str (String (declarantCompany orig)),
                to = Str (String (declarantCompany req))\<rparr>]
        else [])
       @ (if declarantName orig \<noteq> declarantName req
        then [\<lparr>field = ''declarantName'', from = Str (String (declarantName orig)),
                to = Str (String (declarantName req))\<rparr>]
        else [])
       @ (if documentHolder orig \<noteq> documentHolder req
        then [\<lparr>field = ''documentHolder'', from = Str (String (documentHolder orig)),
                to = Str (String (documentHolder req))\<rparr>]
        else [])
       @ (if documentHolderPhone orig \<noteq> documentHolderPhone req
        then [\<lparr>field = ''documentHolderPhone'', from = Str (String (documentHolderPhone orig)),
                to = Str (String (documentHolderPhone req))\<rparr>]
        else [])
       @ (if reason orig \<noteq> reason req
        then [\<lparr>field = ''reason'', from = Str (String (reason orig)),
                to = Str (String (reason req))\<rparr>]
        else [])
       @ (if js (corrections orig) \<noteq> js (corrections req)
        then [\<lparr>field = ''corrections'', from = js (corrections orig),
                to = js (corrections req)\<rparr>]
        else [])
   \<and> String Undefined = ''undefined'' \<and> String Null = ''null'' \<and> (\<forall>t. String (Str t) = t)
   \<and> compare_with_original js orig orig = []
   \<and> (\<forall>res d'. createCaseRequest d js request uid (Some oid) now = (Inr res, d')
          \<and> oid \<noteq> 0 \<and> find (\<lambda>r. req_id r = oid) (caseRequests d) = Some original \<longrightarrow>
          (\<exists>row. res = Some row
             \<and> changes row
                 = (if compare_with_original js (payload original) request = [] then None
                    else Some (compare_with_original js (payload original) request))
             \<and> changes row \<noteq> Some []
             \<and> (request = payload original \<longrightarrow> changes row = None)))"
proof (intro conjI allI impI)
  show "compare_with_original js orig req =
       (if sadNumber orig \<noteq> sadNumber req
        then [\<lparr>field = ''sadNumber'', from = Str (String (sadNumber orig)),
                to = Str (String (sadNumber req))\<rparr>]
        else [])
       @ (if sadDate orig \<noteq> sadDate req
        then [\<lparr>field = ''sadDate'', from = Str (String (sadDate orig)),
                to = Str (String (sadDate req))\<rparr>]
        else [])
       @ (if declarantCompany orig \<noteq> declarantCompany req
        then [\<lparr>field = ''declarantCompany'', from = Str (String (declarantCompany orig)),
                to = Str (String (declarantCompany req))\<rparr>]
        else [])
       @ (if declarantName orig \<noteq> declarantName req
        then [\<lparr>field = ''declarantName'', from = Str (String (declarantName orig)),
                to = Str (String (declarantName req))\<rparr>]
        else [])
       @ (if documentHolder orig \<noteq> documentHolder req
        then [\<lparr>field = ''documentHolder'', from = Str (String (documentHolder orig)),
                to = Str (String (documentHolder req))\<rparr>]
        else [])
       @ (if documentHolderPhone orig \<noteq> documentHolderPhone req
        then [\<lparr>field = ''documentHolderPhone'', from = Str (String (documentHolderPhone orig)),
                to = Str (String (documentHolderPhone req))\<rparr>]
        else [])
       @ (if reason orig \<noteq> reason req
        then [\<lparr>field = ''reason'', from = Str (String (reason orig)),
                to = Str (String (reason req))\<rparr>]
        else [])
       @ (if js (corrections orig) \<noteq> js (corrections req)
        then [\<lparr>field = ''corrections'', from = js (corrections orig),
                to = js (corrections req)\<rparr>]
        else [])"
    by (rule compare_explicit)
  show "String Undefined = ''undefined''" "String Null = ''null''"
    by simp_all
  show "compare_with_original js orig orig = []"
    by (rule compare_same)
next
  fix t
  show "String (Str t) = t"
    by simp
next
  fix res d'
  assume a: "createCaseRequest d js request uid (Some oid) now = (Inr res, d')
          \<and> oid \<noteq> 0 \<and> find (\<lambda>r. req_id r = oid) (caseRequests d) = Some original"
  then obtain row where row: "res = Some row"
    "changes row = (if compare_with_original js (payload original) request = [] then None
                    else Some (compare_with_original js (payload original) request))"
    using resubmission_changes [of d js request uid oid now res d' original] by blast
  have "changes row \<noteq> Some []"
    using row(2) by (simp split: if_splits)
  moreover have "request = payload original \<longrightarrow> changes row = None"
    using row(2) by (simp add: compare_same)
  ultimately show "\<exists>row. res = Some row
             \<and> changes row
                 = (if compare_with_original js (payload original) request = [] then None
                    else Some (compare_with_original js (payload original) request))
             \<and> changes row \<noteq> Some []
             \<and> (request = payload original \<longrightarrow> changes row = None)"
    using row by blast
qed

theorem change_list_exact_witness:
  "compare_with_original Str (request_A\<lparr>documentHolderPhone := Null\<rparr>)
       (request_A\<lparr>sadDate := Str ''2024-02-29'', documentHolderPhone := Undefined,
                  reason := Str ''y'', corrections := ''[1]''\<rparr>)
     = [\<lparr>field = ''sadDate'', from = Str ''2024-01-31'', to = Str ''2024-02-29''\<rparr>,
        \<lparr>field = ''documentHolderPhone'', from = Str ''null'', to = Str ''undefined''\<rparr>,
        \<lparr>field = ''reason'', from = Str ''x'', to = Str ''y''\<rparr>,
        \<lparr>field = ''corrections'', from = Str ''[]'', to = Str ''[1]''\<rparr>]
   \<and> (\<exists>row d'. createCaseRequest one_extension_db Str
                    (request_A\<lparr>sadDate := Str ''2024-02-29'', reason := Str ''y'',
                               corrections := ''[1]''\<rparr>) 2 (Some 1) 3000
                  = (Inr (Some row), d')
         \<and> changes row
             = Some [\<lparr>field = ''sadDate'', from = Str ''2024-01-31'', to = Str ''2024-02-29''\<rparr>,
                     \<lparr>field = ''reason'', from = Str ''x'', to = Str ''y''\<rparr>,
                     \<lparr>field = ''corrections'', from = Str ''[]'', to = Str ''[1]''\<rparr>])
   \<and> (\<exists>row d'. createCaseRequest one_extension_db Str request_A 2 (Some 1) 3000 = (Inr (Some row), d')
         \<and> changes row = None)"
proof -
  let ?O = "request_A\<lparr>documentHolderPhone := Null\<rparr>"
  let ?R = "request_A\<lparr>sadDate := Str ''2024-02-29'', documentHolderPhone := Undefined,
                       reason := Str ''y'', corrections := ''[1]''\<rparr>"
  let ?B = "request_A\<lparr>sadDate := Str ''2024-02-29'', reason := Str ''y'',
                       corrections := ''[1]''\<rparr>"
  let ?A = "\<lparr>req_id = 1, userId = 1, payload = request_A, status = ''submitted'',
          adminFeedback = None, isResubmission = False, originalRequestId = None,
          changes = None, hiddenBy = Some [], isArchived = False, createdAt = 1000,
          updatedAt = 1000, receivedAt = None, completedAt = None\<rparr>"
  have f: "faults one_extension_db = []"
    by (simp add: one_extension_db_eq)
  have o: "find (\<lambda>r. req_id r = 1) (caseRequests one_extension_db) = Some ?A"
    by (simp add: one_extension_db_eq)
  note T = change_list_exact [where js = Str and d = one_extension_db
      and uid = 2 and oid = 1 and now = 3000 and original = ?A]
  from T [where orig = ?O and req = ?R and request = ?B]
  have 1: "compare_with_original Str ?O ?R
     = [\<lparr>field = ''sadDate'', from = Str ''2024-01-31'', to = Str ''2024-02-29''\<rparr>,
        \<lparr>field = ''documentHolderPhone'', from = Str ''null'', to = Str ''undefined''\<rparr>,
        \<lparr>field = ''reason'', from = Str ''x'', to = Str ''y''\<rparr>,
        \<lparr>field = ''corrections'', from = Str ''[]'', to = Str ''[1]''\<rparr>]"
    by (simp add: request_A_def)
  from T [where orig = request_A and req = ?B and request = ?B]
  have v: "compare_with_original Str request_A ?B
     = [\<lparr>field = ''sadDate'', from = Str ''2024-01-31'', to = Str ''2024-02-29''\<rparr>,
        \<lparr>field = ''reason'', from = Str ''x'', to = Str ''y''\<rparr>,
        \<lparr>field = ''corrections'', from = Str ''[]'', to = Str ''[1]''\<rparr>]"
    by (simp add: request_A_def)
  obtain rB dB where cB: "createCaseRequest one_extension_db Str ?B 2 (Some 1) 3000 = (Inr (Some rB), dB)"
    using createCaseRequest_succeeds [OF f] by blast
  from T [where orig = request_A and req = ?B and request = ?B] cB o v
  have "changes rB
     = Some [\<lparr>field = ''sadDate'', from = Str ''2024-01-31'', to = Str ''2024-02-29''\<rparr>,
             \<lparr>field = ''reason'', from = Str ''x'', to = Str ''y''\<rparr>,
             \<lparr>field = ''corrections'', from = Str ''[]'', to = Str ''[1]''\<rparr>]"
    by simp
  with cB have 2: "\<exists>row d'. createCaseRequest one_extension_db Str ?B 2 (Some 1) 3000 = (Inr (Some row), d')
         \<and> changes row
             = Some [\<lparr>field = ''sadDate'', from = Str ''2024-01-31'', to = Str ''2024-02-29''\<rparr>,
                     \<lparr>field = ''reason'', from = Str ''x'', to = Str ''y''\<rparr>,
                     \<lparr>field = ''corrections'', from = Str ''[]'', to = Str ''[1]''\<rparr>]"
    by (intro exI [of _ rB] exI [of _ dB]) simp
  obtain rA dA where cA: "createCaseRequest one_extension_db Str request_A 2 (Some 1) 3000 = (Inr (Some rA), dA)"
    using createCaseRequest_succeeds [OF f] by blast
  from T [where orig = request_A and req = request_A and request = request_A] cA o
  have "changes rA = None"
    by simp
  with cA have 3: "\<exists>row d'. createCaseRequest one_extension_db Str request_A 2 (Some 1) 3000 = (Inr (Some row), d')
         \<and> changes row = None"
    by (intro exI [of _ rA] exI [of _ dA]) simp
  from 1 2 3 show ?thesis
    by (intro conjI)
qed

section \<open>Listing\<close>

lemma run_select_where_desc:
  "run_select rows (q_orderBy_desc k (q_where c select_from))
     = sort_key (\<lambda>r. - k r) (filter c rows)"
  by (simp add: run_select_def q_orderBy_desc_def q_where_def select_from_def Let_def)

lemma q_where_replaces: "q_where c (q_where c' q) = q_where c q"
  by (simp add: q_where_def)

lemma listing_sorted_desc:
  "sorted_wrt (\<lambda>a b. k b \<le> k a) (sort_key (\<lambda>r. - k r) (xs :: 'a list))" for k :: "'a \<Rightarrow> int"
  using sorted_sort_key [of "\<lambda>r. - k r" xs] by (simp add: sorted_map)

text \<open>
  getAllCaseRequests and getAllExtensionRequests, when the store answers, return exactly
  the rows that are not archived, newest first.
\<close>

theorem getAll_not_archived_newest_first:
  assumes "faults d = []"
  shows "(\<exists>xs. getAllCaseRequests d = (Inr xs, d)
            \<and> mset xs = mset (filter (\<lambda>r. \<not> isArchived r) (caseRequests d))
            \<and> sorted_wrt (\<lambda>a b. createdAt b \<le> createdAt a) xs)
       \<and> (\<exists>ys. getAllExtensionRequests d = (Inr ys, d)
            \<and> mset ys = mset (filter (\<lambda>r. \<not> isArchived r) (extensionRequests d))
            \<and> sorted_wrt (\<lambda>a b. createdAt b \<le> createdAt a) ys)"
  using assms
  by (simp add: getAllCaseRequests_def getAllExtensionRequests_def db_select_no_faults
      run_select_where_desc listing_sorted_desc)

lemma two_owner_db_eq:
  "two_owner_db =
     \<lparr>users = [],
      caseRequests =
        [\<lparr>req_id = 1, userId = 1, payload = request_A, status = ''submitted'',
          adminFeedback = None, isResubmission = False, originalRequestId = None,
          changes = None, hiddenBy = Some [], isArchived = False, createdAt = 1000,
          updatedAt = 1000, receivedAt = None, completedAt = None\<rparr>,
         \<lparr>req_id = 2, userId = 2, payload = request_A, status = ''submitted'',
          adminFeedback = None, isResubmission = False, originalRequestId = None,
          changes = None, hiddenBy = Some [], isArchived = False, createdAt = 2000,
          updatedAt = 2000, receivedAt = None, completedAt = None\<rparr>],
      extensionRequests = [],
      users_seq = 1, caseRequests_seq = 3, extensionRequests_seq = 1, faults = [],
      jsonb = (\<lambda>c. c)\<rparr>"
  by (simp add: two_owner_db_def one_case_db_def stored_request_A createCaseRequest_def
      original_changes_def
      empty_db_def await_def Let_def)

theorem getAll_not_archived_newest_first_witness:
  "\<exists>xs. getAllCaseRequests two_owner_db = (Inr xs, two_owner_db) \<and> map req_id xs = [2, 1]"
proof -
  have f: "faults two_owner_db = []"
    by (simp add: two_owner_db_eq)
  from getAll_not_archived_newest_first [OF f]
  obtain xs where xs: "getAllCaseRequests two_owner_db = (Inr xs, two_owner_db)"
    by blast
  then have "map req_id xs = [2, 1]"
    by (auto simp: getAllCaseRequests_def db_select_no_faults f run_select_where_desc two_owner_db_eq)
  with xs show ?thesis by (intro exI [of _ xs]) simp
qed

text \<open>
  C6. The three \<^verbatim>\<open>.where\<close> calls of getCaseRequestsByUser do not accumulate: the builder
  keeps the last condition only, so the query filters on \<open>isArchived\<close> alone. The
  listing of user 1 contains the request of user 2, and after user 1 hides request 1 the
  listing of user 1 still contains it.
\<close>

theorem by_user_listing_ignores_owner_and_hidden:
  "map (\<lambda>r. (req_id r, userId r, hiddenBy r)) (caseRequests hidden_db)
     = [(1, 1, Some [1]), (2, 2, Some [])]
   \<and> map_sum id (map req_id) (fst (getCaseRequestsByUser two_owner_db 1)) = Inr [2, 1]
   \<and> map_sum id (map req_id) (fst (getCaseRequestsByUser hidden_db 1)) = Inr [2, 1]"
  by (simp add: hidden_db_def hideUserCaseRequest_def getCaseRequestsByUser_def db_select_def
      await_def run_select_where run_select_where_desc q_where_replaces
      update_rows_def two_owner_db_eq Let_def)

lemma by_user_is_all:
  "getCaseRequestsByUser d uid =
     (case getAllCaseRequests d of (Inl e, d') \<Rightarrow> (Inr [], d') | (Inr xs, d') \<Rightarrow> (Inr xs, d'))"
  "getExtensionRequestsByUser d uid = getAllExtensionRequests d"
  by (simp_all add: getCaseRequestsByUser_def getAllCaseRequests_def
      getExtensionRequestsByUser_def getAllExtensionRequests_def q_where_replaces)

section \<open>Missing records and store failures\<close>

lemma unchanged_case_table: "d\<lparr>caseRequests := caseRequests d\<rparr> = d"
  by simp

lemma missing_case_id:
  assumes f: "faults d = []" and m: "find (\<lambda>r. req_id r = i) (caseRequests d) = None"
  shows "updateCaseRequest d i new fb tu tc tr
           = (Inl (Error (''Request with ID '' @ show_int i @ '' not found'')), d)"
    and "hideUserCaseRequest d i uid = (Inl (Error ''Request not found''), d)"
    and "archiveCaseRequest d i = (Inr (), d)"
    and "deleteCaseRequest d i = (Inr (), d)"
    and "getCaseRequest d i = (Inr None, d)"
  using f m
  by (simp_all add: updateCaseRequest_def hideUserCaseRequest_def archiveCaseRequest_def
      deleteCaseRequest_def getCaseRequest_def db_select_no_faults await_no_faults
      run_select_by_id run_select_where first_filter update_rows_none delete_rows_none)

lemma missing_extension_id:
  assumes f: "faults d = []" and m: "find (\<lambda>r. req_id r = i) (extensionRequests d) = None"
  shows "updateExtensionRequest d i new fb tu tc tr
           = (Inl (Error (''Request with ID '' @ show_int i @ '' not found'')), d)"
    and "hideUserExtensionRequest d i uid = (Inl (Error ''Request not found''), d)"
    and "archiveExtensionRequest d i = (Inr (), d)"
    and "deleteExtensionRequest d i = (Inr (), d)"
    and "getExtensionRequest d i = (Inr None, d)"
  using f m
  by (simp_all add: updateExtensionRequest_def hideUserExtensionRequest_def
      archiveExtensionRequest_def deleteExtensionRequest_def getExtensionRequest_def
      db_select_no_faults await_no_faults
      run_select_by_id run_select_where first_filter update_rows_none delete_rows_none)

lemma missing_user_id:
  "faults d = [] \<Longrightarrow> find (\<lambda>u. user_id u = i) (users d) = None \<Longrightarrow> getUser d i = (Inr None, d)"
  by (simp add: getUser_def db_select_no_faults run_select_where first_filter)

text \<open>
  C7, as the code has it. With a store that answers and an id that no record has:
  updateStatus and hide fail with a not-found error; archive and delete complete without
  an error and leave the store as it was; the single-record lookups return absent.
\<close>

theorem missing_id_outcomes:
  assumes "faults d = []"
  shows "(find (\<lambda>r. req_id r = i) (caseRequests d) = None \<longrightarrow>
            updateCaseRequest d i new fb tu tc tr
              = (Inl (Error (''Request with ID '' @ show_int i @ '' not found'')), d)
            \<and> hideUserCaseRequest d i uid = (Inl (Error ''Request not found''), d)
            \<and> archiveCaseRequest d i = (Inr (), d)
            \<and> deleteCaseRequest d i = (Inr (), d)
            \<and> getCaseRequest d i = (Inr None, d))
       \<and> (find (\<lambda>r. req_id r = i) (extensionRequests d) = None \<longrightarrow>
            updateExtensionRequest d i new fb tu tc tr
              = (Inl (Error (''Request with ID '' @ show_int i @ '' not found'')), d)
            \<and> hideUserExtensionRequest d i uid = (Inl (Error ''Request not found''), d)
            \<and> archiveExtensionRequest d i = (Inr (), d)
            \<and> deleteExtensionRequest d i = (Inr (), d)
            \<and> getExtensionRequest d i = (Inr None, d))
       \<and> (find (\<lambda>u. user_id u = i) (users d) = None \<longrightarrow> getUser d i = (Inr None, d))"
  by (simp add: missing_case_id [OF assms] missing_extension_id [OF assms]
      missing_user_id [OF assms])

theorem missing_id_outcomes_witness:
  "updateCaseRequest one_extension_db 42 ''pending'' None 2000 2001 2002
     = (Inl (Error ''Request with ID 42 not found''), one_extension_db)
   \<and> hideUserExtensionRequest one_extension_db 42 1 = (Inl (Error ''Request not found''), one_extension_db)
   \<and> deleteExtensionRequest one_extension_db 42 = (Inr (), one_extension_db)
   \<and> getUser one_extension_db 42 = (Inr None, one_extension_db)"
proof -
  have f: "faults one_extension_db = []"
    and c: "find (\<lambda>r. req_id r = 42) (caseRequests one_extension_db) = None"
    and e: "find (\<lambda>r. req_id r = 42) (extensionRequests one_extension_db) = None"
    and u: "find (\<lambda>u. user_id u = 42) (users one_extension_db) = None"
    by (simp_all add: one_extension_db_eq)
  have s: "show_int 42 = ''42''"
    by code_simp
  from missing_id_outcomes [OF f, where i = 42 and new = "''pending''" and fb = None
      and tu = 2000 and tc = 2001 and tr = 2002 and uid = 1] c e u s
  show ?thesis by simp
qed

text \<open>
  The same does not hold of archive and delete: on an id that no record has they
  complete without any error.
\<close>

theorem archive_and_delete_accept_missing_id:
  "find (\<lambda>r. req_id r = 42) (caseRequests one_extension_db) = None
   \<and> archiveCaseRequest one_extension_db 42 = (Inr (), one_extension_db)
   \<and> deleteCaseRequest one_extension_db 42 = (Inr (), one_extension_db)"
  by (simp add: one_extension_db_eq archiveCaseRequest_def deleteCaseRequest_def await_def
      update_rows_def delete_rows_def)

section \<open>Store failures\<close>

lemma db_select_fault: "await d = (Some e, d1) \<Longrightarrow> db_select d rows q = (Inl e, d1)"
  by (simp add: db_select_def)

text \<open>
  When the first call to the store throws \<open>e\<close>: the lookups that catch return absent or
  the empty list; every write path fails, with \<open>e\<close> itself or, in the two update
  methods when \<open>e\<close> is not an Error object, with their own failure.
\<close>

theorem store_error_outcomes:
  assumes "await d = (Some e, d1)"
  shows "getUser d i = (Inr None, d1)
       \<and> getCaseRequest d i = (Inr None, d1)
       \<and> getExtensionRequest d i = (Inr None, d1)
       \<and> getCaseRequestsByUser d uid = (Inr [], d1)
       \<and> createUser d p now = (Inl e, d1)
       \<and> createCaseRequest d js request uid None now = (Inl e, d1)
       \<and> createExtensionRequest d x uid st now = (Inl e, d1)
       \<and> updateCaseRequest d i new fb tu tc tr
           = (Inl (if instanceof_Error e then e else Error ''Failed to update case request''), d1)
       \<and> updateExtensionRequest d i new fb tu tc tr
           = (Inl (if instanceof_Error e then e else Error ''Failed to update extension request''), d1)
       \<and> hideUserCaseRequest d i uid = (Inl e, d1)
       \<and> hideUserExtensionRequest d i uid = (Inl e, d1)
       \<and> archiveCaseRequest d i = (Inl e, d1)
       \<and> archiveExtensionRequest d i = (Inl e, d1)
       \<and> deleteCaseRequest d i = (Inl e, d1)
       \<and> deleteExtensionRequest d i = (Inl e, d1)"
  using assms
  by (simp add: getUser_def getCaseRequest_def getExtensionRequest_def getCaseRequestsByUser_def
      createUser_def createCaseRequest_def original_changes_def createExtensionRequest_def
      updateCaseRequest_def updateExtensionRequest_def hideUserCaseRequest_def
      hideUserExtensionRequest_def archiveCaseRequest_def archiveExtensionRequest_def
      deleteCaseRequest_def deleteExtensionRequest_def db_select_fault)

theorem store_error_outcomes_witness:
  "getUser failing_db 1 = (Inr None, one_extension_db)
   \<and> archiveCaseRequest failing_db 1 = (Inl (Error ''connection terminated''), one_extension_db)"
proof -
  have a: "await failing_db = (Some (Error ''connection terminated''), one_extension_db)"
    by (simp add: failing_db_def await_def one_extension_db_eq)
  from store_error_outcomes [OF a, where i = 1] show ?thesis
    by simp
qed

text \<open>
  C8. Of the four list queries only getCaseRequestsByUser catches: when the store throws,
  it returns the empty list, while getExtensionRequestsByUser, getAllCaseRequests and
  getAllExtensionRequests reject with the store's error.
\<close>

theorem list_queries_propagate_store_error:
  "faults failing_db = [Some (Error ''connection terminated'')]
   \<and> fst (getCaseRequestsByUser failing_db 1) = Inr []
   \<and> fst (getExtensionRequestsByUser failing_db 1) = Inl (Error ''connection terminated'')
   \<and> fst (getAllCaseRequests failing_db) = Inl (Error ''connection terminated'')
   \<and> fst (getAllExtensionRequests failing_db) = Inl (Error ''connection terminated'')"
  by (simp add: failing_db_def getCaseRequestsByUser_def getExtensionRequestsByUser_def
      getAllCaseRequests_def getAllExtensionRequests_def db_select_def await_def)

section \<open>Storage backend selection\<close>






end
